theory Spec2Isabelle
  imports Complex_Main "HOL-Library.Multiset"
begin

section \<open>Values of the program\<close>

text \<open>
  The program is one Python script, \<^verbatim>\<open>app.py\<close>. A Python string is a sequence of Unicode
  code points, and \<^verbatim>\<open>ord\<close> reads one of them, so a string is modelled as the list of its
  code points; \<open>str\<close> writes an ASCII literal.
\<close>

type_synonym py_str = "nat list"

definition str :: "string \<Rightarrow> py_str" where
  "str s = map of_char s"

text \<open>
  Exceptions are values. \<open>Raised\<close> stands for any other subclass of \<^verbatim>\<open>Exception\<close> that a
  library call may raise (the regression model, \<^verbatim>\<open>pickle\<close>, \<^verbatim>\<open>json\<close>, \<^verbatim>\<open>open\<close>).
\<close>

datatype py_error =
    IndexError
  | ValueError
  | TypeError
  | KeyError
  | ZeroDivisionError
  | OverflowError
  | Raised string

text \<open>Sequencing of statements that may raise: the first exception ends the block.\<close>

definition and_then :: "py_error + 'a \<Rightarrow> ('a \<Rightarrow> py_error + 'b) \<Rightarrow> py_error + 'b" where
  "and_then m f = (case m of Inl e \<Rightarrow> Inl e | Inr a \<Rightarrow> f a)"


section \<open>Numbers\<close>

text \<open>
  The inputs of the program and the price the model returns are finite numbers, modelled
  as reals. \<^verbatim>\<open>model.predict([x])[0]\<close> is an element of a numpy array, an \<^verbatim>\<open>np.float64\<close>, and so is
  every number computed from it: a value of IEEE 754 binary64, which is a finite number,
  an infinity or \<^verbatim>\<open>nan\<close>. The sign of a zero is not modelled: a zero counts as positive.
\<close>

datatype np_float64 = Finite real | PosInf | NegInf | NaN

text \<open>Rounding to an integer, a tie going to the even one (\<^verbatim>\<open>rint\<close>).\<close>

definition rint :: "real \<Rightarrow> int" where
  "rint y =
     (let f = \<lfloor>y\<rfloor>; d = y - of_int f
      in if d < 1 / 2 then f else if 1 / 2 < d then f + 1 else if even f then f else f + 1)"

text \<open>
  The rounding of binary64. \<open>exponent x\<close> is the \<open>e\<close> with \<open>2 ^ e \<le> \<bar>x\<bar> < 2 ^ (e + 1)\<close>; the
  binary64 numbers around \<open>x\<close> are the multiples of \<open>2 ^ (e - 52)\<close>, and of \<open>2 ^ - 1074\<close> below
  the normal range. \<open>fl64 x\<close> is the nearest of them, a tie going to the even multiple, and
  an infinity when that is \<open>2 ^ 1024\<close> or more, which is when its exponent is 1024 or more.
\<close>

function bit_length :: "int \<Rightarrow> int" where
  "bit_length n = (if n \<le> 0 then 0 else 1 + bit_length (n div 2))"
  by pat_completeness auto
termination
  by (relation "measure nat") auto

definition pow2 :: "int \<Rightarrow> real" where
  "pow2 e = (if 0 \<le> e then 2 ^ nat e else 1 / 2 ^ nat (- e))"

definition exponent :: "real \<Rightarrow> int" where
  "exponent x =
     (if 1 \<le> \<bar>x\<bar> then bit_length \<lfloor>\<bar>x\<bar>\<rfloor> - 1
      else - bit_length (\<lceil>1 / \<bar>x\<bar>\<rceil> - 1))"

definition fl64 :: "real \<Rightarrow> np_float64" where
  "fl64 x =
     (let q = pow2 (max (exponent x) (- 1022) - 52);
          r = of_int (rint (x / q)) * q
      in if 1024 \<le> exponent r then (if 0 < x then PosInf else NegInf) else Finite r)"

text \<open>
  The arithmetic of \<^verbatim>\<open>np.float64\<close>. It does not raise: an overflow gives an infinity, a
  nonzero number divided by zero an infinity, \<^verbatim>\<open>0 / 0\<close> and the other invalid operations
  \<^verbatim>\<open>nan\<close> (numpy warns).
\<close>

definition signed_inf :: "real \<Rightarrow> np_float64" where
  "signed_inf s = (if 0 < s then PosInf else if s < 0 then NegInf else NaN)"

fun np_sign :: "np_float64 \<Rightarrow> real" where
  "np_sign (Finite a) = sgn a"
| "np_sign PosInf = 1"
| "np_sign NegInf = - 1"
| "np_sign NaN = 0"

fun np_add :: "np_float64 \<Rightarrow> np_float64 \<Rightarrow> np_float64" where
  "np_add (Finite a) (Finite b) = fl64 (a + b)"
| "np_add NaN b = NaN"
| "np_add a NaN = NaN"
| "np_add (Finite a) b = b"
| "np_add a (Finite b) = a"
| "np_add a b = (if a = b then a else NaN)"

fun np_sub :: "np_float64 \<Rightarrow> np_float64 \<Rightarrow> np_float64" where
  "np_sub (Finite a) (Finite b) = fl64 (a - b)"
| "np_sub NaN b = NaN"
| "np_sub a NaN = NaN"
| "np_sub (Finite a) b = signed_inf (- np_sign b)"
| "np_sub a (Finite b) = a"
| "np_sub a b = (if a = b then NaN else a)"

fun np_mul :: "np_float64 \<Rightarrow> np_float64 \<Rightarrow> np_float64" where
  "np_mul (Finite a) (Finite b) = fl64 (a * b)"
| "np_mul NaN b = NaN"
| "np_mul a NaN = NaN"
| "np_mul a b = signed_inf (np_sign a * np_sign b)"

fun np_div :: "np_float64 \<Rightarrow> np_float64 \<Rightarrow> np_float64" where
  "np_div (Finite a) (Finite b) = (if b = 0 then signed_inf a else fl64 (a / b))"
| "np_div NaN b = NaN"
| "np_div a NaN = NaN"
| "np_div (Finite a) b = Finite 0"
| "np_div a (Finite b) = signed_inf (np_sign a * (if b < 0 then - 1 else 1))"
| "np_div a b = NaN"

fun np_rint :: "np_float64 \<Rightarrow> np_float64" where
  "np_rint (Finite a) = Finite (of_int (rint a))"
| "np_rint a = a"

text \<open>
  \<^verbatim>\<open>round(v, ndigits)\<close> on an \<^verbatim>\<open>np.float64\<close> is numpy's \<^verbatim>\<open>round\<close>: it multiplies by \<open>10 ^ ndigits\<close>,
  rounds to an integer and divides by \<open>10 ^ ndigits\<close>, each step in binary64.
\<close>

definition np_round :: "np_float64 \<Rightarrow> nat \<Rightarrow> np_float64" where
  "np_round v ndigits =
     np_div (np_rint (np_mul v (Finite (10 ^ ndigits)))) (Finite (10 ^ ndigits))"

text \<open>
  \<^verbatim>\<open>x ** n\<close> on Python floats, for a positive integer \<open>n\<close>, is \<^verbatim>\<open>pow\<close> of the C library, which
  returns the binary64 number nearest to the power (for the base and the exponents of
  this program the power is within a tenth of a unit in the last place of it).
\<close>

fun py_pow :: "np_float64 \<Rightarrow> nat \<Rightarrow> np_float64" where
  "py_pow (Finite a) n = fl64 (a ^ n)"
| "py_pow PosInf n = PosInf"
| "py_pow NegInf n = (if even n then PosInf else NegInf)"
| "py_pow NaN n = NaN"

text \<open>
  \<^verbatim>\<open>round(v, ndigits)\<close> on a Python float: the nearest multiple of \<open>10 ^ - ndigits\<close>, a tie
  going to the even one.
\<close>

definition py_round :: "real \<Rightarrow> nat \<Rightarrow> real" where
  "py_round v ndigits = of_int (rint (v * 10 ^ ndigits)) / 10 ^ ndigits"

section \<open>Building the feature vector\<close>

text \<open>
  \<^verbatim>\<open>x[i] = v\<close> on a numpy array with a non-negative index: out of range raises
  \<^verbatim>\<open>IndexError\<close>.
\<close>

definition setitem :: "real list \<Rightarrow> nat \<Rightarrow> real \<Rightarrow> py_error + real list" where
  "setitem x i v = (if i < length x then Inr (x[i := v]) else Inl IndexError)"

text \<open>
  \<^verbatim>\<open>columns.index(location)\<close>: the position of the first equal element, \<^verbatim>\<open>ValueError\<close>
  when there is none.
\<close>

fun index :: "'a list \<Rightarrow> 'a \<Rightarrow> py_error + nat" where
  "index [] v = Inl ValueError"
| "index (c # cs) v =
     (if c = v then Inr 0
      else case index cs v of Inl e \<Rightarrow> Inl e | Inr i \<Rightarrow> Inr (Suc i))"

text \<open>
  The statements shared by \<^verbatim>\<open>get_price_per_sqft\<close> (lines 53 to 58) and by the handler of the
  predict button (lines 238 to 245):
  \<^verbatim>\<open>
      x = np.zeros(len(columns))
      x[0] = area
      x[1] = bath
      x[2] = bhk
      loc_index = columns.index(location)
      x[loc_index] = 1
  \<close>
\<close>

definition feature_x ::
  "py_str list \<Rightarrow> real \<Rightarrow> real \<Rightarrow> real \<Rightarrow> py_str \<Rightarrow> py_error + real list" where
  "feature_x columns area bath bhk location =
     and_then (setitem (replicate (length columns) 0) 0 area) (\<lambda>x0.
     and_then (setitem x0 1 bath) (\<lambda>x1.
     and_then (setitem x1 2 bhk) (\<lambda>x2.
     and_then (index columns location) (\<lambda>loc_index.
     setitem x2 loc_index 1))))"


section \<open>Prediction\<close>

text \<open>
  The regression model is an object unpickled from a file that is not part of the
  program, so \<^verbatim>\<open>model.predict([x])[0]\<close> is a parameter: a function of the fixed model state
  and the feature vector that returns a number or raises.
\<close>

type_synonym model = "real list \<Rightarrow> py_error + real"

text \<open>What the script shows on the page, in the order it is shown.\<close>

datatype ui =
    LoadError py_error
  | SqftError py_error
  | PredictionError py_error
  | CheckInputs
  | PriceCard real np_float64
  | RoiCard nat np_float64 np_float64
  | AqiCard int
  | NoiseCard int
  | GreenCard real

text \<open>
  \<^verbatim>\<open>get_price_per_sqft\<close> (lines 51 to 63): the body of the \<^verbatim>\<open>try\<close>, and the function with its
  \<^verbatim>\<open>except Exception\<close>, which shows the error and returns 0. The division
  \<^verbatim>\<open>predicted_price / area\<close> is a division of \<^verbatim>\<open>np.float64\<close>.
\<close>

definition price_per_sqft_body ::
  "model \<Rightarrow> py_str list \<Rightarrow> py_str \<Rightarrow> real \<Rightarrow> real \<Rightarrow> real \<Rightarrow> py_error + np_float64" where
  "price_per_sqft_body model columns location area bhk bath =
     and_then (feature_x columns area bath bhk location) (\<lambda>x.
     and_then (model x) (\<lambda>predicted_price.
     Inr (np_div (Finite predicted_price) (Finite area))))"

definition get_price_per_sqft ::
  "model \<Rightarrow> py_str list \<Rightarrow> py_str \<Rightarrow> real \<Rightarrow> real \<Rightarrow> real \<Rightarrow> ui list \<times> np_float64" where
  "get_price_per_sqft model columns location area bhk bath =
     (case price_per_sqft_body model columns location area bhk bath of
        Inr r \<Rightarrow> ([], r)
      | Inl e \<Rightarrow> ([SqftError e], Finite 0))"

text \<open>
  The prediction of the handler (lines 238 to 251): the vector, the model's price and the
  price per square foot.
\<close>

definition predict_price ::
  "model \<Rightarrow> py_str list \<Rightarrow> real \<Rightarrow> real \<Rightarrow> real \<Rightarrow> py_str \<Rightarrow> py_error + real \<times> np_float64" where
  "predict_price model columns area bathrooms bedrooms location =
     and_then (feature_x columns area bathrooms bedrooms location) (\<lambda>x.
     and_then (model x) (\<lambda>predicted_price.
     Inr (predicted_price, np_div (Finite predicted_price) (Finite area))))"

section \<open>Return on investment\<close>

text \<open>
  Line 264, \<^verbatim>\<open>annual_growth_rate = 0.07\<close>: the literal is the binary64 number nearest to 0.07.
\<close>

definition annual_growth_rate :: np_float64 where
  "annual_growth_rate = fl64 0.07"

text \<open>
  Lines 266 to 268, \<^verbatim>\<open>round(predicted_price * ((1 + annual_growth_rate) ** years), 2)\<close>, and the
  gain each card shows, \<^verbatim>\<open>(roi/predicted_price - 1) * 100\<close>.
\<close>

definition roi_years :: "real \<Rightarrow> nat \<Rightarrow> np_float64" where
  "roi_years predicted_price years =
     np_round (np_mul (Finite predicted_price)
                 (py_pow (np_add (Finite 1) annual_growth_rate) years)) 2"

definition percent_gain :: "np_float64 \<Rightarrow> real \<Rightarrow> np_float64" where
  "percent_gain roi predicted_price =
     np_mul (np_sub (np_div roi (Finite predicted_price)) (Finite 1)) (Finite 100)"

definition roi_card :: "real \<Rightarrow> nat \<Rightarrow> np_float64 \<Rightarrow> ui" where
  "roi_card predicted_price years roi =
     RoiCard years roi (percent_gain roi predicted_price)"

section \<open>Environmental analysis\<close>

text \<open>
  \<^verbatim>\<open>np.random\<close> is numpy's global generator, a library that is not part of the program: it
  is a parameter. \<open>'g\<close> is the generator's state; \<^verbatim>\<open>seed\<close> replaces the state by one that
  the seed alone determines, or raises; \<^verbatim>\<open>randint\<close> and \<^verbatim>\<open>uniform\<close> return a draw and the next
  state.
\<close>

record 'g np_random =
  np_seed :: "nat \<Rightarrow> py_error + 'g"
  np_randint :: "int \<Rightarrow> int \<Rightarrow> 'g \<Rightarrow> int \<times> 'g"
  np_uniform :: "real \<Rightarrow> real \<Rightarrow> 'g \<Rightarrow> real \<times> 'g"

text \<open>\<^verbatim>\<open>ord(c)\<close>: a character is its code point.\<close>

definition ord :: "nat \<Rightarrow> nat" where
  "ord c = c"

text \<open>
  Lines 298 to 323, without the colours of the cards:
  \<^verbatim>\<open>
      seed = sum(ord(c) for c in location)
      np.random.seed(seed)
      aqi = np.random.randint(50, 200)
      noise = np.random.randint(30, 90)
      green = round(np.random.uniform(5, 30), 2)
  \<close>
  \<open>draws\<close> is the three draws, in the order of the script, from the state the seeding
  left. The result of \<open>environmental\<close> is the profile, or the exception of the seeding,
  and the state the global generator is left in.
\<close>

definition draws :: "'g np_random \<Rightarrow> 'g \<Rightarrow> (int \<times> int \<times> real) \<times> 'g" where
  "draws R g0 =
     (let (aqi, g1) = np_randint R 50 200 g0;
          (noise, g2) = np_randint R 30 90 g1;
          (u, g3) = np_uniform R 5 30 g2;
          green = py_round u 2
      in ((aqi, noise, green), g3))"

definition environmental ::
  "'g np_random \<Rightarrow> py_str \<Rightarrow> 'g \<Rightarrow> (py_error + int \<times> int \<times> real) \<times> 'g" where
  "environmental R location g =
     (let seed = sum_list (map ord location)
      in case np_seed R seed of
           Inl e \<Rightarrow> (Inl e, g)
         | Inr g0 \<Rightarrow> (let (profile, g3) = draws R g0 in (Inr profile, g3)))"

text \<open>
  The documented ranges of numpy's draws: \<^verbatim>\<open>randint(low, high)\<close> and \<^verbatim>\<open>uniform(low, high)\<close>
  return a value of the half-open interval from low to high.
\<close>

definition numpy_ranges :: "'g np_random \<Rightarrow> bool" where
  "numpy_ranges R \<longleftrightarrow>
     (\<forall>lo hi g. lo < hi \<longrightarrow>
        lo \<le> fst (np_randint R lo hi g) \<and> fst (np_randint R lo hi g) < hi) \<and>
     (\<forall>lo hi g. lo < hi \<longrightarrow>
        lo \<le> fst (np_uniform R lo hi g) \<and> fst (np_uniform R lo hi g) < hi)"


section \<open>The handler of the predict button\<close>

text \<open>
  Lines 236 to 335. Everything is inside one \<^verbatim>\<open>try\<close>: a card that was shown before an
  exception stays on the page, and the \<^verbatim>\<open>except Exception\<close> adds the two error messages.
  The arithmetic of the cards does not raise.
\<close>

definition failed :: "ui list \<Rightarrow> py_error \<Rightarrow> ui list" where
  "failed shown e = shown @ [PredictionError e, CheckInputs]"

definition roi_cards :: "real \<Rightarrow> ui list" where
  "roi_cards predicted_price =
     (let roi_5_years = roi_years predicted_price 5;
          roi_10_years = roi_years predicted_price 10;
          roi_15_years = roi_years predicted_price 15
      in [roi_card predicted_price 5 roi_5_years,
          roi_card predicted_price 10 roi_10_years,
          roi_card predicted_price 15 roi_15_years])"

definition predict_button ::
  "'g np_random \<Rightarrow> model \<Rightarrow> py_str list \<Rightarrow> real \<Rightarrow> real \<Rightarrow> real \<Rightarrow> py_str \<Rightarrow> 'g
     \<Rightarrow> ui list \<times> 'g" where
  "predict_button R model columns area bathrooms bedrooms location g =
     (case predict_price model columns area bathrooms bedrooms location of
        Inl e \<Rightarrow> (failed [] e, g)
      | Inr (predicted_price, price_per_sqft) \<Rightarrow>
          (let shown = PriceCard predicted_price price_per_sqft # roi_cards predicted_price
           in case environmental R location g of
                (Inl e, g') \<Rightarrow> (failed shown e, g')
              | (Inr (aqi, noise, green), g') \<Rightarrow>
                  (shown @ [AqiCard aqi, NoiseCard noise, GreenCard green], g')))"

section \<open>Formatting a price\<close>

text \<open>
  \<^verbatim>\<open>format_price\<close> (lines 65 to 70) takes any Python value. The values the model knows are
  \<^verbatim>\<open>None\<close>, integers, finite floats and strings.
\<close>

datatype py_val = PyNone | PyInt int | PyFloat real | PyStr py_str

text \<open>
  \<^verbatim>\<open>float(price)\<close>. An integer too large for a float raises \<^verbatim>\<open>OverflowError\<close>; \<^verbatim>\<open>None\<close> raises
  \<^verbatim>\<open>TypeError\<close>; a string is read by Python's parser of float literals, a builtin that is a
  parameter here (\<open>None\<close> where Python raises \<^verbatim>\<open>ValueError\<close>).
\<close>

definition py_float :: "(py_str \<Rightarrow> real option) \<Rightarrow> py_val \<Rightarrow> py_error + real" where
  "py_float parse price =
     (case price of
        PyNone \<Rightarrow> Inl TypeError
      | PyInt i \<Rightarrow> if \<bar>i\<bar> < 2 ^ 1024 - 2 ^ 970 then Inr (of_int i) else Inl OverflowError
      | PyFloat r \<Rightarrow> Inr r
      | PyStr s \<Rightarrow> (case parse s of None \<Rightarrow> Inl ValueError | Some r \<Rightarrow> Inr r))"

text \<open>
  The format \<^verbatim>\<open>,.2f\<close>: a minus sign for a negative number, the integer digits in groups of
  three separated by commas, a point and two decimals; the value is rounded to the
  nearest hundredth, a tie going to the even one.
\<close>

fun digits :: "nat \<Rightarrow> py_str" where
  "digits n = (if n < 10 then [48 + n] else digits (n div 10) @ [48 + n mod 10])"

fun group3 :: "py_str \<Rightarrow> py_str" where
  "group3 (a # b # c # d # ds) = a # b # c # 44 # group3 (d # ds)"
| "group3 ds = ds"

definition thousands :: "nat \<Rightarrow> py_str" where
  "thousands n = rev (group3 (rev (digits n)))"

definition format_2f :: "real \<Rightarrow> py_str" where
  "format_2f v =
     (let cents = nat (rint (\<bar>v\<bar> * 100))
      in (if v < 0 then [45] else []) @ thousands (cents div 100) @
         [46, 48 + cents mod 100 div 10, 48 + cents mod 10])"

text \<open>The rupee sign, U+20B9.\<close>

definition rupee :: nat where
  "rupee = 8377"

text \<open>
  \<^verbatim>\<open>
  def format_price(price):
      try:
          price = float(price)  # Ensure price is a float
          return f"<rupee>{price:,.2f}"
      except (ValueError, TypeError):
          return "<rupee>0.00"
  \<close>
  Any other exception leaves the function.
\<close>

definition format_price :: "(py_str \<Rightarrow> real option) \<Rightarrow> py_val \<Rightarrow> py_error + py_str" where
  "format_price parse price =
     (case py_float parse price of
        Inr p \<Rightarrow> Inr (rupee # format_2f p)
      | Inl e \<Rightarrow> if e = ValueError \<or> e = TypeError then Inr (rupee # str ''0.00'') else Inl e)"

text \<open>
  A parser for the plain ASCII float literals, an optional sign, digits, and an optional
  point with more digits: a fragment of Python's parser, for concrete inputs.
\<close>

fun digit_value :: "nat \<Rightarrow> nat option" where
  "digit_value c = (if 48 \<le> c \<and> c \<le> 57 then Some (c - 48) else None)"

fun read_digits :: "py_str \<Rightarrow> nat \<Rightarrow> (nat \<times> py_str) option" where
  "read_digits [] acc = Some (acc, [])"
| "read_digits (c # cs) acc =
     (case digit_value c of
        Some d \<Rightarrow> read_digits cs (10 * acc + d)
      | None \<Rightarrow> Some (acc, c # cs))"

definition ascii_unsigned :: "py_str \<Rightarrow> real option" where
  "ascii_unsigned s =
     (case read_digits s 0 of
        None \<Rightarrow> None
      | Some (whole, rest) \<Rightarrow>
          if rest = [] then (if s = [] then None else Some (real whole))
          else if hd rest = 46 then
            (case read_digits (tl rest) 0 of
               None \<Rightarrow> None
             | Some (fr, rest') \<Rightarrow>
                 if rest' \<noteq> [] \<or> (length s = 1) then None
                 else Some (real whole + real fr / 10 ^ length (tl rest)))
          else None)"

definition ascii_float :: "py_str \<Rightarrow> real option" where
  "ascii_float s =
     (case s of
        [] \<Rightarrow> None
      | c # cs \<Rightarrow>
          if c = 45 then map_option uminus (ascii_unsigned cs)
          else if c = 43 then ascii_unsigned cs
          else ascii_unsigned s)"

section \<open>Loading the model and the columns\<close>

text \<open>
  The value \<^verbatim>\<open>json.load\<close> returns. An object is the list of its items, each key once.
\<close>

datatype json =
    JNull
  | JBool bool
  | JNumber real
  | JString py_str
  | JArray "json list"
  | JObject "(py_str \<times> json) list"

text \<open>
  \<^verbatim>\<open>doc[key]\<close> with a string key: the item of a dictionary, \<^verbatim>\<open>KeyError\<close> when the dictionary
  has no such key, \<^verbatim>\<open>TypeError\<close> for every other JSON value.
\<close>

definition getitem :: "json \<Rightarrow> py_str \<Rightarrow> py_error + json" where
  "getitem doc k =
     (case doc of
        JObject items \<Rightarrow> (case map_of items k of None \<Rightarrow> Inl KeyError | Some v \<Rightarrow> Inr v)
      | _ \<Rightarrow> Inl TypeError)"

text \<open>
  What the script reads from outside: \<^verbatim>\<open>open\<close> on a path (the file's bytes, or the exception
  of a missing or unreadable file), \<^verbatim>\<open>pickle.load\<close> and \<^verbatim>\<open>json.load\<close> on the bytes (the object,
  or the exception of the deserialiser). \<open>'m\<close> is the type of unpickled objects.
\<close>

record 'm files =
  open_file :: "string list \<Rightarrow> py_error + nat list"
  pickle_load :: "nat list \<Rightarrow> py_error + 'm"
  json_load :: "nat list \<Rightarrow> py_error + json"

text \<open>
  \<^verbatim>\<open>load_model\<close> (lines 31 to 42); a path is the list of its components below
  \<^verbatim>\<open>parent_dir\<close>, the directory above the script's.
\<close>

definition load_model :: "'m files \<Rightarrow> string list \<Rightarrow> py_error + 'm \<times> json" where
  "load_model fs parent_dir =
     (let model_path = parent_dir @ [''Model'', ''Jaipur_real_estate_model.pickle''];
          columns_path = parent_dir @ [''Model'', ''columns.json'']
      in and_then (open_file fs model_path) (\<lambda>f.
         and_then (pickle_load fs f) (\<lambda>model.
         and_then (open_file fs columns_path) (\<lambda>f'.
         and_then (json_load fs f') (\<lambda>doc.
         and_then (getitem doc (str ''data_columns'')) (\<lambda>columns.
         Inr (model, columns)))))))"

text \<open>
  Lines 44 to 48: the script loads the model; on any exception it shows the error and
  stops (\<^verbatim>\<open>st.stop()\<close> ends the run of the script), otherwise it goes on with the rest of
  the page, \<open>rest\<close>.
\<close>

definition startup :: "'m files \<Rightarrow> string list \<Rightarrow> ('m \<Rightarrow> json \<Rightarrow> ui list) \<Rightarrow> ui list" where
  "startup fs parent_dir rest =
     (case load_model fs parent_dir of
        Inl e \<Rightarrow> [LoadError e]
      | Inr (model, columns) \<Rightarrow> rest model columns)"

section \<open>A model of numpy's generator\<close>

text \<open>
  For concrete runs, numpy's global generator as the script uses it: the Mersenne Twister
  MT19937 on 32-bit words with the seeding of \<^verbatim>\<open>np.random.seed\<close> for an integer, the masked
  rejection sampling of \<^verbatim>\<open>randint\<close> and the 53-bit double of \<^verbatim>\<open>uniform\<close>. A word is an
  integer below \<open>2 ^ 32\<close>.
\<close>

unbundle bit_operations_syntax

text \<open>The key after seeding: word \<open>k\<close> is computed from word \<open>k - 1\<close>.\<close>

fun init_from :: "nat \<Rightarrow> int \<Rightarrow> int \<Rightarrow> int" where
  "init_from 0 pos s = s"
| "init_from (Suc n) pos s =
     init_from n (pos + 1) ((1812433253 * (s XOR drop_bit 30 s) + pos + 1) mod 4294967296)"

definition mt_init :: "nat \<Rightarrow> nat \<Rightarrow> int" where
  "mt_init seed k = init_from k 0 (int seed mod 4294967296)"

text \<open>
  The recurrence of the generator: the words after a key of 624 words, each from the
  words 624, 623 and 227 places before it.
\<close>

definition twist :: "int \<Rightarrow> int \<Rightarrow> int \<Rightarrow> int" where
  "twist k0 k1 km =
     (let y = (k0 AND 0x80000000) OR (k1 AND 0x7fffffff)
      in km XOR drop_bit 1 y XOR (if odd y then 0x9908b0df else 0))"

function mt_word :: "(nat \<Rightarrow> int) \<Rightarrow> nat \<Rightarrow> int" where
  "mt_word key n =
     (if n < 624 then key n
      else twist (mt_word key (n - 624)) (mt_word key (n - 623)) (mt_word key (n - 227)))"
  by pat_completeness auto
termination
  by (relation "measure snd") auto

definition temper :: "int \<Rightarrow> int" where
  "temper y0 =
     (let y1 = y0 XOR drop_bit 11 y0;
          y2 = y1 XOR (push_bit 7 y1 AND 0x9d2c5680);
          y3 = y2 XOR (push_bit 15 y2 AND 0xefc60000)
      in (y3 XOR drop_bit 18 y3) mod 4294967296)"

text \<open>The state: a key and the position of the next word.\<close>

datatype mt_state = MT "nat \<Rightarrow> int" nat

fun mt_next :: "mt_state \<Rightarrow> int \<times> mt_state" where
  "mt_next (MT key pos) = (temper (mt_word key pos), MT key (Suc pos))"

text \<open>
  \<^verbatim>\<open>randint(lo, hi)\<close>: words are masked to the bits of \<open>hi - 1 - lo\<close> and drawn until one
  is in range. numpy's loop has no bound; the model gives up after 1000 words.
\<close>

definition gen_mask :: "int \<Rightarrow> int" where
  "gen_mask rng =
     (let m1 = rng OR drop_bit 1 rng;
          m2 = m1 OR drop_bit 2 m1;
          m3 = m2 OR drop_bit 4 m2;
          m4 = m3 OR drop_bit 8 m3
      in m4 OR drop_bit 16 m4)"

fun bounded_masked :: "nat \<Rightarrow> int \<Rightarrow> int \<Rightarrow> mt_state \<Rightarrow> int \<times> mt_state" where
  "bounded_masked 0 rng msk st = (0, st)"
| "bounded_masked (Suc fuel) rng msk st =
     (let (w, st') = mt_next st; v = w AND msk
      in if v \<le> rng then (v, st') else bounded_masked fuel rng msk st')"

definition mt_randint :: "int \<Rightarrow> int \<Rightarrow> mt_state \<Rightarrow> int \<times> mt_state" where
  "mt_randint lo hi st =
     (let rng = hi - 1 - lo
      in if rng = 0 then (lo, st)
         else (let (v, st') = bounded_masked 1000 rng (gen_mask rng) st in (lo + v, st')))"

text \<open>\<^verbatim>\<open>uniform(lo, hi)\<close>: \<open>lo + (hi - lo) * r\<close>, with \<open>r\<close> made of 27 and 26 bits of two words.\<close>

definition mt_double :: "mt_state \<Rightarrow> real \<times> mt_state" where
  "mt_double st =
     (let (w1, st1) = mt_next st; (w2, st2) = mt_next st1;
          a = drop_bit 5 w1; b = drop_bit 6 w2
      in ((of_int a * 67108864 + of_int b) / 9007199254740992, st2))"

definition mt_uniform :: "real \<Rightarrow> real \<Rightarrow> mt_state \<Rightarrow> real \<times> mt_state" where
  "mt_uniform lo hi st = (let (r, st') = mt_double st in (lo + (hi - lo) * r, st'))"

text \<open>\<^verbatim>\<open>seed(n)\<close>: the seed must be below \<open>2 ^ 32\<close>; the first word drawn is word 624.\<close>

definition mt_seed :: "nat \<Rightarrow> py_error + mt_state" where
  "mt_seed seed = (if seed < 4294967296 then Inr (MT (mt_init seed) 624) else Inl ValueError)"

definition numpy_mt :: "mt_state np_random" where
  "numpy_mt = \<lparr> np_seed = mt_seed, np_randint = mt_randint, np_uniform = mt_uniform \<rparr>"

text \<open>The draws of the script with this generator.\<close>

definition mt_draws :: "mt_state \<Rightarrow> (int \<times> int \<times> real) \<times> mt_state" where
  "mt_draws g0 =
     (let (aqi, g1) = mt_randint 50 200 g0;
          (noise, g2) = mt_randint 30 90 g1;
          (u, g3) = mt_uniform 5 30 g2;
          green = py_round u 2
      in ((aqi, noise, green), g3))"

section \<open>Facts about the feature vector\<close>

lemma index_Inr_iff: "(\<exists>i. index cs v = Inr i) \<longleftrightarrow> v \<in> set cs"
  by (induction cs) (auto split: sum.splits)

lemma index_ValueError: "v \<notin> set cs \<Longrightarrow> index cs v = Inl ValueError"
  by (induction cs) auto

lemma index_Inl: "index cs v = Inl e \<Longrightarrow> e = ValueError \<and> v \<notin> set cs"
  by (induction cs arbitrary: e) (auto split: if_splits sum.splits)

lemma index_bound: "index cs v = Inr i \<Longrightarrow> i < length cs \<and> cs ! i = v"
  by (induction cs arbitrary: i) (auto split: if_splits sum.splits)

lemma index_first: "index cs v = Inr i \<Longrightarrow> j < i \<Longrightarrow> cs ! j \<noteq> v"
proof (induction cs arbitrary: i j)
  case Nil
  then show ?case by simp
next
  case (Cons c cs)
  show ?case
  proof (cases "c = v")
    case True
    with Cons.prems show ?thesis by simp
  next
    case False
    with Cons.prems obtain k where k: "index cs v = Inr k" "i = Suc k"
      by (auto split: sum.splits)
    show ?thesis
    proof (cases j)
      case 0
      with False show ?thesis by simp
    next
      case (Suc j')
      with Cons.prems k have "j' < k" by simp
      with Cons.IH k Suc show ?thesis by simp
    qed
  qed
qed

lemma index_take: "index cs v = Inr i \<Longrightarrow> n \<le> i \<longleftrightarrow> v \<notin> set (take n cs)"
proof
  assume i: "index cs v = Inr i" and n: "n \<le> i"
  show "v \<notin> set (take n cs)"
  proof
    assume "v \<in> set (take n cs)"
    then obtain j where j: "j < length (take n cs)" "take n cs ! j = v"
      by (auto simp: in_set_conv_nth)
    then have "j < i" "cs ! j = v" using n by auto
    with index_first [OF i] show False by blast
  qed
next
  assume i: "index cs v = Inr i" and notin: "v \<notin> set (take n cs)"
  show "n \<le> i"
  proof (rule ccontr)
    assume "\<not> n \<le> i"
    then have lt: "i < n" by simp
    from index_bound [OF i] have "i < length cs" "cs ! i = v" by auto
    with lt have "v \<in> set (take n cs)"
      by (auto simp: in_set_conv_nth intro!: exI [of _ i])
    with notin show False by blast
  qed
qed


lemma sum_list_replicate_update:
  "k < m \<Longrightarrow> sum_list ((replicate m (0::real))[k := v]) = v"
proof (induction m arbitrary: k)
  case 0
  then show ?case by simp
next
  case (Suc m)
  then show ?case by (cases k) (simp_all add: sum_list_replicate)
qed

lemma feature_x_built:
  assumes i: "index columns location = Inr i" and n: "3 \<le> length columns"
  shows "feature_x columns area bath bhk location =
           Inr ((replicate (length columns) 0)[0 := area, 1 := bath, 2 := bhk, i := 1])"
proof -
  from index_bound [OF i] have "i < length columns" by simp
  moreover from n have "columns \<noteq> []" by auto
  ultimately show ?thesis using i n
    by (simp add: feature_x_def and_then_def setitem_def)
qed

lemma feature_x_short:
  "length columns < 3 \<Longrightarrow> feature_x columns area bath bhk location = Inl IndexError"
  by (simp add: feature_x_def and_then_def setitem_def)

lemma feature_x_unknown:
  assumes n: "3 \<le> length columns" and notin: "location \<notin> set columns"
  shows "feature_x columns area bath bhk location = Inl ValueError"
proof -
  from n have "columns \<noteq> []" by auto
  with n notin show ?thesis
    by (simp add: feature_x_def and_then_def setitem_def index_ValueError)
qed

lemma feature_x_Inr_member:
  "feature_x columns area bath bhk location = Inr x \<Longrightarrow> location \<in> set columns"
  by (auto simp: feature_x_def and_then_def setitem_def index_Inr_iff [symmetric]
      split: if_splits sum.splits)

section \<open>The claims about the feature vector\<close>

text \<open>
  C1, as the program has it. Whenever the location's first occurrence in the column list
  lies in the one-hot region (it is a column, and it is none of the first three), the
  vector is built, has one slot per column, holds area, bathrooms and bedrooms in slots
  0, 1 and 2 and 1 at the location's index, and its one-hot region sums to exactly 1.
  For the columns area, bath, bhk, loc_a, loc_b and the query (1000, 2, 3, loc_b) the
  vector is [1000, 2, 3, 0, 1].
\<close>

theorem feature_x_one_hot:
  assumes "location \<in> set columns" and "location \<notin> set (take 3 columns)"
  shows "\<exists>x i. feature_x columns area bathrooms bedrooms location = Inr x
           \<and> index columns location = Inr i \<and> 3 \<le> i
           \<and> length x = length columns
           \<and> x ! 0 = area \<and> x ! 1 = bathrooms \<and> x ! 2 = bedrooms
           \<and> x ! i = 1 \<and> sum_list (drop 3 x) = 1
           \<and> feature_x [str ''area'', str ''bath'', str ''bhk'', str ''loc_a'', str ''loc_b'']
                 1000 2 3 (str ''loc_b'') = Inr [1000, 2, 3, 0, 1]"
proof -
  from assms(1) obtain i where i: "index columns location = Inr i"
    using index_Inr_iff by metis
  from index_take [OF i, of 3] assms(2) have i3: "3 \<le> i" by simp
  from index_bound [OF i] have il: "i < length columns" by simp
  with i3 have n: "3 \<le> length columns" by simp
  then have ne: "columns \<noteq> []" by auto
  define x where "x = (replicate (length columns) (0::real))[0 := area, 1 := bathrooms, 2 := bedrooms, i := 1]"
  have built: "feature_x columns area bathrooms bedrooms location = Inr x"
    unfolding x_def by (rule feature_x_built [OF i n])
  have len: "length x = length columns" by (simp add: x_def)
  have x0: "x ! 0 = area" using i3 n ne by (simp add: x_def)
  have x1: "x ! 1 = bathrooms" using i3 n by (simp add: x_def)
  have x2: "x ! 2 = bedrooms" using i3 n by (simp add: x_def)
  have xi: "x ! i = 1" using il by (simp add: x_def)
  have "drop 3 x = (replicate (length columns - 3) (0::real))[i - 3 := 1]"
    using i3 by (simp add: x_def drop_update_swap drop_update_cancel)
  moreover have "i - 3 < length columns - 3" using i3 il by simp
  ultimately have hot: "sum_list (drop 3 x) = 1"
    by (simp add: sum_list_replicate_update)
  have ex: "feature_x [str ''area'', str ''bath'', str ''bhk'', str ''loc_a'', str ''loc_b'']
              1000 2 3 (str ''loc_b'') = Inr [1000, 2, 3, 0, 1]"
    by (simp add: feature_x_def and_then_def setitem_def str_def)
  from built i i3 len x0 x1 x2 xi hot ex show ?thesis by blast
qed

theorem feature_x_one_hot_witness:
  "str ''loc_b'' \<in> set [str ''area'', str ''bath'', str ''bhk'', str ''loc_a'', str ''loc_b'']
   \<and> str ''loc_b'' \<notin> set (take 3 [str ''area'', str ''bath'', str ''bhk'', str ''loc_a'', str ''loc_b''])
   \<and> (\<exists>x. feature_x [str ''area'', str ''bath'', str ''bhk'', str ''loc_a'', str ''loc_b'']
              1000 2 3 (str ''loc_b'') = Inr x
          \<and> length x = 5 \<and> x ! 0 = 1000 \<and> x ! 1 = 2 \<and> x ! 2 = 3 \<and> sum_list (drop 3 x) = 1)"
proof -
  have a: "str ''loc_b'' \<in> set [str ''area'', str ''bath'', str ''bhk'', str ''loc_a'', str ''loc_b'']"
    by simp
  have b: "str ''loc_b'' \<notin> set (take 3 [str ''area'', str ''bath'', str ''bhk'', str ''loc_a'', str ''loc_b''])"
    by (simp add: str_def)
  from feature_x_one_hot [OF a b, of 1000 2 3] a b show ?thesis by auto
qed

text \<open>
  C1 as stated fails: membership of the location in the column list is not enough. The
  name of a fixed slot is a member of the list, and then the 1 overwrites that slot and
  the one-hot region stays all zero; the same happens when a column name of the one-hot
  region also stands among the first three.
\<close>

theorem feature_x_fixed_slot_counterexample:
  "str ''bath'' \<in> set [str ''area'', str ''bath'', str ''bhk'', str ''loc_a'', str ''loc_b'']
   \<and> feature_x [str ''area'', str ''bath'', str ''bhk'', str ''loc_a'', str ''loc_b'']
        1000 2 3 (str ''bath'') = Inr [1000, 1, 3, 0, 0]
   \<and> str ''bath'' \<in> set (drop 3 [str ''area'', str ''bath'', str ''bhk'', str ''loc_a'', str ''bath''])
   \<and> feature_x [str ''area'', str ''bath'', str ''bhk'', str ''loc_a'', str ''bath'']
        1000 2 3 (str ''bath'') = Inr [1000, 1, 3, 0, 0]"
  by (simp add: feature_x_def and_then_def setitem_def str_def)

section \<open>Facts about rounding to an integer and to two decimals\<close>

lemma rint_floor: "rint y = \<lfloor>y\<rfloor> \<or> rint y = \<lfloor>y\<rfloor> + 1"
  by (simp add: rint_def Let_def)

lemma rint_close: "\<bar>of_int (rint y) - y\<bar> \<le> 1 / 2"
proof -
  have lo: "of_int \<lfloor>y\<rfloor> \<le> y" and hi: "y < of_int \<lfloor>y\<rfloor> + 1" by linarith+
  show ?thesis
  proof (cases "y - of_int \<lfloor>y\<rfloor> < 1 / 2")
    case True
    then have "rint y = \<lfloor>y\<rfloor>" by (simp add: rint_def Let_def)
    with True lo show ?thesis by simp
  next
    case False
    show ?thesis
    proof (cases "1 / 2 < y - of_int \<lfloor>y\<rfloor>")
      case True
      with False have "rint y = \<lfloor>y\<rfloor> + 1" by (simp add: rint_def Let_def)
      with True hi show ?thesis by simp
    next
      case False
      with \<open>\<not> y - of_int \<lfloor>y\<rfloor> < 1 / 2\<close> have half: "y - of_int \<lfloor>y\<rfloor> = 1 / 2" by simp
      from rint_floor [of y] show ?thesis
      proof
        assume "rint y = \<lfloor>y\<rfloor>"
        with half show ?thesis by simp
      next
        assume "rint y = \<lfloor>y\<rfloor> + 1"
        with half show ?thesis by simp
      qed
    qed
  qed
qed

lemma rint_eq:
  assumes "of_int n - 1 / 2 < y" and "y < of_int n + 1 / 2"
  shows "rint y = n"
proof -
  from rint_close [of y] assms have "\<bar>(of_int (rint y) :: real) - of_int n\<bar> < 1" by linarith
  then have "\<bar>of_int (rint y - n) :: real\<bar> < 1" by simp
  then have "\<bar>rint y - n\<bar> < 1" by linarith
  then show ?thesis by simp
qed

lemma rint_of_int: "rint (of_int n) = n"
  by (rule rint_eq) simp_all

lemma rint_ge: "of_int n \<le> y \<Longrightarrow> n \<le> rint y"
proof -
  assume "of_int n \<le> y"
  then have "n \<le> \<lfloor>y\<rfloor>" by (simp add: le_floor_iff)
  with rint_floor [of y] show ?thesis by auto
qed

lemma rint_le:
  assumes "y \<le> of_int n"
  shows "rint y \<le> n"
proof (cases "y = of_int n")
  case True
  then show ?thesis by (simp add: rint_of_int)
next
  case False
  with assms have "y < of_int n" by simp
  then have "\<lfloor>y\<rfloor> < n" by (simp add: floor_less_iff)
  with rint_floor [of y] show ?thesis by auto
qed

lemma py_round2_close: "\<bar>py_round v 2 - v\<bar> \<le> 5 / 1000"
proof -
  have "py_round v 2 = of_int (rint (v * 100)) / 100"
    by (simp add: py_round_def)
  with rint_close [of "v * 100"] show ?thesis by linarith
qed

lemma py_round2_hundredths: "\<exists>n::int. py_round v 2 = of_int n / 100"
  by (auto simp: py_round_def)

lemma py_round2_ge: "of_int n \<le> v \<Longrightarrow> of_int n \<le> py_round v 2"
proof -
  assume "of_int n \<le> v"
  then have "of_int (n * 100) \<le> v * 100" by simp
  from rint_ge [OF this] have "n * 100 \<le> rint (v * 100)" .
  then have "(of_int (n * 100) :: real) \<le> of_int (rint (v * 100))" by (simp only: of_int_le_iff)
  then show ?thesis by (simp add: py_round_def field_simps)
qed

lemma py_round2_le: "v \<le> of_int n \<Longrightarrow> py_round v 2 \<le> of_int n"
proof -
  assume "v \<le> of_int n"
  then have "v * 100 \<le> of_int (n * 100)" by simp
  from rint_le [OF this] have "rint (v * 100) \<le> n * 100" .
  then have "(of_int (rint (v * 100)) :: real) \<le> of_int (n * 100)" by (simp only: of_int_le_iff)
  then show ?thesis by (simp add: py_round_def field_simps)
qed

lemma py_round2_eq:
  assumes "\<bar>v - of_int n / 100\<bar> < 4 / 1000"
  shows "py_round v 2 = of_int n / 100"
proof -
  from assms have "of_int n - 1 / 2 < v * 100" "v * 100 < of_int n + 1 / 2"
    by linarith+
  from rint_eq [OF this] show ?thesis by (simp add: py_round_def)
qed

lemma py_round2_eqI:
  assumes "of_int n - 1 / 2 < v * 100" and "v * 100 < of_int n + 1 / 2"
  shows "py_round v 2 = of_int n / 100"
  using rint_eq [OF assms] by (simp add: py_round_def)

lemma py_round2_stable:
  assumes "\<bar>x - of_int n / 100\<bar> < 3 / 1000" and "\<bar>v - x\<bar> \<le> 1 / 1000"
  shows "py_round v 2 = of_int n / 100"
proof (rule py_round2_eq)
  from assms show "\<bar>v - of_int n / 100\<bar> < 4 / 1000" by linarith
qed

section \<open>Facts about binary64\<close>

declare bit_length.simps [simp del]

lemma pow2_powi: "pow2 e = 2 powi e"
  by (simp add: pow2_def power_int_def inverse_eq_divide power_one_over)

lemma pow2_pos: "0 < pow2 e"
  by (simp add: pow2_powi zero_less_power_int)

lemma pow2_add: "pow2 (a + b) = pow2 a * pow2 b"
  by (simp add: pow2_powi power_int_add)

lemma pow2_less: "a < b \<Longrightarrow> pow2 a < pow2 b"
  by (simp add: pow2_powi power_int_strict_increasing)

lemma pow2_le: "a \<le> b \<Longrightarrow> pow2 a \<le> pow2 b"
  by (simp add: pow2_powi power_int_increasing)

lemma pow2_less_D: "pow2 a < pow2 b \<Longrightarrow> a < b"
  using pow2_le [of b a] by (cases "a < b") auto

lemma pow2_nonneg: "0 \<le> e \<Longrightarrow> pow2 e = 2 ^ nat e"
  by (simp add: pow2_def)

lemma pow2_neg: "e \<le> 0 \<Longrightarrow> pow2 e = 1 / 2 ^ nat (- e)"
  by (cases "e = 0") (simp_all add: pow2_def)

lemma bit_length_nonpos: "n \<le> 0 \<Longrightarrow> bit_length n = 0"
  by (subst bit_length.simps) simp

lemma bit_length_pos: "0 < n \<Longrightarrow> bit_length n = 1 + bit_length (n div 2)"
  by (subst bit_length.simps) simp

lemma bit_length_bounds:
  "0 < n \<Longrightarrow> 0 < bit_length n \<and> 2 ^ nat (bit_length n - 1) \<le> n \<and> n < 2 ^ nat (bit_length n)"
proof (induction n rule: bit_length.induct)
  case (1 n)
  from "1.prems" have eq: "bit_length n = 1 + bit_length (n div 2)" by (rule bit_length_pos)
  show ?case
  proof (cases "n div 2 = 0")
    case True
    with "1.prems" have "n = 1" by presburger
    moreover have "bit_length 1 = 1"
      by (simp add: bit_length_pos bit_length_nonpos)
    ultimately show ?thesis by simp
  next
    case False
    with "1.prems" have m: "0 < n div 2" by presburger
    define b where "b = bit_length (n div 2)"
    from "1.prems" have "\<not> n \<le> 0" by simp
    from "1.IH" [OF this m] have b0: "0 < b"
      and lo: "2 ^ nat (b - 1) \<le> n div 2" and hi: "n div 2 < 2 ^ nat b"
      by (simp_all add: b_def)
    from b0 have nb: "nat b = Suc (nat (b - 1))" by simp
    have p: "(2::int) ^ nat b = 2 * 2 ^ nat (b - 1)" by (subst nb) simp
    have q: "(2::int) ^ nat (1 + b) = 2 * 2 ^ nat b" using b0 by (simp add: nat_add_distrib)
    have "2 * (n div 2) \<le> n" "n < 2 * (n div 2) + 2" by presburger+
    with lo hi p q have "2 ^ nat b \<le> n" "n < 2 ^ nat (1 + b)" by linarith+
    with b0 show ?thesis by (simp add: eq b_def [symmetric])
  qed
qed

lemma exponent_bounds:
  assumes "x \<noteq> 0"
  shows "pow2 (exponent x) \<le> \<bar>x\<bar> \<and> \<bar>x\<bar> < pow2 (exponent x + 1)"
proof (cases "1 \<le> \<bar>x\<bar>")
  case True
  define n where "n = \<lfloor>\<bar>x\<bar>\<rfloor>"
  define b where "b = bit_length n"
  from True have n1: "0 < n" by (simp add: n_def)
  have nx: "of_int n \<le> \<bar>x\<bar>" "\<bar>x\<bar> < of_int n + 1" unfolding n_def by linarith+
  from bit_length_bounds [OF n1] have b0: "0 < b"
    and lo: "2 ^ nat (b - 1) \<le> n" and hi: "n < 2 ^ nat b"
    by (simp_all add: b_def)
  from True have e: "exponent x = b - 1" by (simp add: exponent_def n_def b_def)
  from lo have "(of_int (2 ^ nat (b - 1)) :: real) \<le> of_int n" by (simp only: of_int_le_iff)
  then have "(2::real) ^ nat (b - 1) \<le> of_int n" by (simp only: of_int_power of_int_numeral)
  with nx have l: "2 ^ nat (b - 1) \<le> \<bar>x\<bar>" by linarith
  from hi have "n + 1 \<le> 2 ^ nat b" by simp
  then have "(of_int (n + 1) :: real) \<le> of_int (2 ^ nat b)" by (simp only: of_int_le_iff)
  then have "of_int n + 1 \<le> (2::real) ^ nat b"
    by (simp only: of_int_power of_int_numeral of_int_add of_int_1)
  with nx have h: "\<bar>x\<bar> < 2 ^ nat b" by linarith
  from b0 l h show ?thesis by (simp add: e pow2_nonneg)
next
  case False
  define y where "y = 1 / \<bar>x\<bar>"
  define n where "n = \<lceil>y\<rceil> - 1"
  define b where "b = bit_length n"
  from False assms have x01: "0 < \<bar>x\<bar>" "\<bar>x\<bar> < 1" by simp_all
  then have y1: "1 < y" by (simp add: y_def)
  have ny: "of_int n < y" "y \<le> of_int n + 1" unfolding n_def by linarith+
  from y1 have "1 < \<lceil>y\<rceil>" by (simp add: less_ceiling_iff)
  then have n1: "0 < n" by (simp add: n_def)
  from bit_length_bounds [OF n1] have b0: "0 < b"
    and lo: "2 ^ nat (b - 1) \<le> n" and hi: "n < 2 ^ nat b"
    by (simp_all add: b_def)
  from False have e: "exponent x = - b" by (simp add: exponent_def n_def b_def y_def)
  from lo have "(of_int (2 ^ nat (b - 1)) :: real) \<le> of_int n" by (simp only: of_int_le_iff)
  then have "(2::real) ^ nat (b - 1) \<le> of_int n" by (simp only: of_int_power of_int_numeral)
  with ny have l: "2 ^ nat (b - 1) < y" by linarith
  from hi have "n + 1 \<le> 2 ^ nat b" by simp
  then have "(of_int (n + 1) :: real) \<le> of_int (2 ^ nat b)" by (simp only: of_int_le_iff)
  then have "of_int n + 1 \<le> (2::real) ^ nat b"
    by (simp only: of_int_power of_int_numeral of_int_add of_int_1)
  with ny have h: "y \<le> 2 ^ nat b" by linarith
  from h x01 have "1 \<le> 2 ^ nat b * \<bar>x\<bar>" by (simp add: y_def field_simps)
  then have lower: "1 / 2 ^ nat b \<le> \<bar>x\<bar>" by (simp add: field_simps)
  from l x01 have "2 ^ nat (b - 1) * \<bar>x\<bar> < 1" by (simp add: y_def field_simps)
  then have upper: "\<bar>x\<bar> < 1 / 2 ^ nat (b - 1)" by (simp add: field_simps)
  from b0 have "pow2 (- b) = 1 / 2 ^ nat b" by (simp add: pow2_neg)
  moreover from b0 have "pow2 (- b + 1) = 1 / 2 ^ nat (b - 1)"
    using pow2_neg [of "- b + 1"] by simp
  ultimately show ?thesis using lower upper by (simp add: e)
qed

lemma exponent_unique:
  assumes "pow2 e \<le> \<bar>x\<bar>" and "\<bar>x\<bar> < pow2 (e + 1)"
  shows "exponent x = e"
proof -
  from assms(1) pow2_pos [of e] have "x \<noteq> 0" by auto
  from exponent_bounds [OF this] have "pow2 (exponent x) \<le> \<bar>x\<bar>" "\<bar>x\<bar> < pow2 (exponent x + 1)"
    by simp_all
  with assms have "pow2 (exponent x) < pow2 (e + 1)" "pow2 e < pow2 (exponent x + 1)" by linarith+
  then have "exponent x < e + 1" "e < exponent x + 1" by (auto dest: pow2_less_D)
  then show ?thesis by simp
qed

lemma exponent_zero: "exponent 0 = 0"
  by (simp add: exponent_def bit_length_nonpos)

lemma exponent_less:
  assumes "\<bar>x\<bar> < pow2 e" and "0 < e"
  shows "exponent x < e"
proof (cases "x = 0")
  case True
  with assms show ?thesis by (simp add: exponent_zero)
next
  case False
  from exponent_bounds [OF this] assms have "pow2 (exponent x) < pow2 e" by linarith
  then show ?thesis by (rule pow2_less_D)
qed

lemma exponent_ge:
  assumes "pow2 e \<le> \<bar>x\<bar>"
  shows "e \<le> exponent x"
proof -
  from assms pow2_pos [of e] have "x \<noteq> 0" by auto
  from exponent_bounds [OF this] assms have "pow2 e < pow2 (exponent x + 1)" by linarith
  then have "e < exponent x + 1" by (rule pow2_less_D)
  then show ?thesis by simp
qed

text \<open>The quantum of binary64 around a number, and the rounding in terms of it.\<close>

lemma fl64_cases:
  "fl64 x = Finite (of_int (rint (x / pow2 (max (exponent x) (- 1022) - 52))) *
                    pow2 (max (exponent x) (- 1022) - 52))
   \<or> fl64 x = PosInf \<or> fl64 x = NegInf"
  by (simp add: fl64_def Let_def)

lemma fl64_finite:
  assumes "\<bar>x\<bar> < pow2 1023"
  shows "fl64 x = Finite (of_int (rint (x / pow2 (max (exponent x) (- 1022) - 52))) *
                          pow2 (max (exponent x) (- 1022) - 52))"
proof -
  define q where "q = pow2 (max (exponent x) (- 1022) - 52)"
  define r where "r = of_int (rint (x / q)) * q"
  have q0: "0 < q" by (simp add: q_def pow2_pos)
  from assms have "exponent x < 1023" by (rule exponent_less) simp
  then have "max (exponent x) (- 1022) - 52 \<le> 970" by simp
  then have q970: "q \<le> pow2 970" unfolding q_def by (rule pow2_le)
  from rint_close [of "x / q"] have "\<bar>of_int (rint (x / q)) * q - x\<bar> \<le> q / 2"
    using q0 by (simp add: field_simps abs_le_iff)
  then have "\<bar>r\<bar> \<le> \<bar>x\<bar> + q / 2" unfolding r_def by linarith
  also have "\<dots> < pow2 1023 + pow2 970" using assms q970 q0 by linarith
  also have "\<dots> < pow2 1024" by (simp add: pow2_def)
  finally have "exponent r < 1024" by (rule exponent_less) simp
  then show ?thesis by (simp add: fl64_def Let_def q_def [symmetric] r_def [symmetric])
qed

lemma fl64_error:
  assumes "\<bar>x\<bar> < pow2 1023"
  shows "\<exists>r. fl64 x = Finite r \<and> \<bar>r - x\<bar> \<le> pow2 (- 53) * \<bar>x\<bar> + pow2 (- 1075)"
proof -
  define e where "e = max (exponent x) (- 1022)"
  define q where "q = pow2 (e - 52)"
  define r where "r = of_int (rint (x / q)) * q"
  have q0: "0 < q" by (simp add: q_def pow2_pos)
  from fl64_finite [OF assms] have f: "fl64 x = Finite r" by (simp add: r_def q_def e_def)
  from rint_close [of "x / q"] have c: "\<bar>r - x\<bar> \<le> q / 2"
    using q0 by (simp add: r_def field_simps abs_le_iff)
  have "\<bar>r - x\<bar> \<le> pow2 (- 53) * \<bar>x\<bar> + pow2 (- 1075)"
  proof (cases "x = 0")
    case True
    have "rint 0 = 0" using rint_of_int [of 0] by simp
    with True have "r = 0" by (simp add: r_def)
    with True pow2_pos [of "- 1075"] show ?thesis by simp
  next
    case x: False
    have "q / 2 \<le> pow2 (- 53) * \<bar>x\<bar> + pow2 (- 1075)"
    proof (cases "- 1022 \<le> exponent x")
      case True
      then have e: "e = exponent x" by (simp add: e_def)
      from exponent_bounds [OF x] have "pow2 e \<le> \<bar>x\<bar>" by (simp add: e)
      moreover have "q / 2 = pow2 (- 53) * pow2 e"
        using pow2_add [of "- 53" e] pow2_add [of "- 1" "e - 52"] by (simp add: q_def pow2_def)
      moreover have "0 < pow2 (- 53)" "0 < pow2 (- 1075)" by (rule pow2_pos)+
      ultimately show ?thesis by (simp add: mult_left_mono add_increasing2)
    next
      case False
      then have "e = - 1022" by (simp add: e_def)
      then have "q / 2 = pow2 (- 1075)"
        using pow2_add [of "- 1" "- 1074"] by (simp add: q_def pow2_def)
      moreover have "0 \<le> pow2 (- 53) * \<bar>x\<bar>" using pow2_pos [of "- 53"] by simp
      ultimately show ?thesis by linarith
    qed
    with c show ?thesis by linarith
  qed
  with f show ?thesis by (intro exI [of _ r]) simp
qed

text \<open>The rounding of a number whose exponent and nearest multiple are known.\<close>

lemma fl64_eqI:
  assumes "pow2 e \<le> \<bar>x\<bar>" and "\<bar>x\<bar> < pow2 (e + 1)" and "- 1022 \<le> e" and "e < 1023"
    and "of_int m - 1 / 2 < x / pow2 (e - 52)" and "x / pow2 (e - 52) < of_int m + 1 / 2"
  shows "fl64 x = Finite (of_int m * pow2 (e - 52))"
proof -
  from assms(1,2) have e: "exponent x = e" by (rule exponent_unique)
  from assms(4) have "pow2 (e + 1) \<le> pow2 1023" by (intro pow2_le) simp
  with assms(2) have "\<bar>x\<bar> < pow2 1023" by linarith
  from fl64_finite [OF this] assms(3) rint_eq [OF assms(5,6)] show ?thesis
    by (simp add: e max_def)
qed

lemma fl64_tieI:
  assumes "pow2 e \<le> \<bar>x\<bar>" and "\<bar>x\<bar> < pow2 (e + 1)" and "- 1022 \<le> e" and "e < 1023"
    and "rint (x / pow2 (e - 52)) = m"
  shows "fl64 x = Finite (of_int m * pow2 (e - 52))"
proof -
  from assms(1,2) have e: "exponent x = e" by (rule exponent_unique)
  from assms(4) have "pow2 (e + 1) \<le> pow2 1023" by (intro pow2_le) simp
  with assms(2) have "\<bar>x\<bar> < pow2 1023" by linarith
  from fl64_finite [OF this] assms(3,5) show ?thesis
    by (simp add: e max_def)
qed

lemma fl64_zero: "fl64 0 = Finite 0"
proof -
  have "rint 0 = 0" using rint_of_int [of 0] by simp
  moreover have "\<bar>0::real\<bar> < pow2 1023" by (simp add: pow2_pos)
  from fl64_finite [OF this] have "fl64 0 = Finite (of_int (rint 0) * pow2 (max (exponent 0) (- 1022) - 52))"
    by simp
  ultimately show ?thesis by simp
qed

text \<open>The error of the rounding, for numbers up to \<open>10 ^ 18\<close>.\<close>

lemma fl64_error_small:
  assumes "\<bar>x\<bar> \<le> 10 ^ 18"
  shows "\<exists>r. fl64 x = Finite r \<and> \<bar>r - x\<bar> \<le> 12 * \<bar>x\<bar> / 10 ^ 17 + 1 / 10 ^ 30"
proof -
  have "(10::real) ^ 18 < pow2 1023" by (simp add: pow2_def)
  with assms have "\<bar>x\<bar> < pow2 1023" by linarith
  from fl64_error [OF this] obtain r
    where r: "fl64 x = Finite r" and e: "\<bar>r - x\<bar> \<le> pow2 (- 53) * \<bar>x\<bar> + pow2 (- 1075)"
    by blast
  have "pow2 (- 53) \<le> 12 / 10 ^ 17" by (simp add: pow2_def)
  then have "pow2 (- 53) * \<bar>x\<bar> \<le> 12 / 10 ^ 17 * \<bar>x\<bar>" by (rule mult_right_mono) simp
  moreover have "pow2 (- 1075) \<le> 1 / 10 ^ 30" by (simp add: pow2_def)
  ultimately have "\<bar>r - x\<bar> \<le> 12 * \<bar>x\<bar> / 10 ^ 17 + 1 / 10 ^ 30" using e by simp
  with r show ?thesis by blast
qed

section \<open>Facts about the prediction\<close>

lemma body_of_feature_error:
  "feature_x columns area bath bhk location = Inl e \<Longrightarrow>
     price_per_sqft_body model columns location area bhk bath = Inl e"
  by (simp add: price_per_sqft_body_def and_then_def)

lemma body_of_model_error:
  "feature_x columns area bath bhk location = Inr x \<Longrightarrow> model x = Inl e \<Longrightarrow>
     price_per_sqft_body model columns location area bhk bath = Inl e"
  by (simp add: price_per_sqft_body_def and_then_def)

lemma body_of_price:
  "feature_x columns area bath bhk location = Inr x \<Longrightarrow> model x = Inr p \<Longrightarrow>
     price_per_sqft_body model columns location area bhk bath =
       Inr (np_div (Finite p) (Finite area))"
  by (simp add: price_per_sqft_body_def and_then_def)

lemma get_price_per_sqft_Inl:
  "price_per_sqft_body model columns location area bhk bath = Inl e \<Longrightarrow>
     get_price_per_sqft model columns location area bhk bath = ([SqftError e], Finite 0)"
  by (simp add: get_price_per_sqft_def)

lemma get_price_per_sqft_Inr:
  "price_per_sqft_body model columns location area bhk bath = Inr r \<Longrightarrow>
     get_price_per_sqft model columns location area bhk bath = ([], r)"
  by (simp add: get_price_per_sqft_def)

lemma predict_price_of_feature_error:
  "feature_x columns area bathrooms bedrooms location = Inl e \<Longrightarrow>
     predict_price model columns area bathrooms bedrooms location = Inl e"
  by (simp add: predict_price_def and_then_def)

lemma predict_button_of_error:
  "predict_price model columns area bathrooms bedrooms location = Inl e \<Longrightarrow>
     predict_button R model columns area bathrooms bedrooms location g =
       ([PredictionError e, CheckInputs], g)"
  by (simp add: predict_button_def failed_def)

lemma feature_x_not_member:
  assumes "location \<notin> set columns"
  shows "\<exists>e. feature_x columns area bath bhk location = Inl e
           \<and> (3 \<le> length columns \<longrightarrow> e = ValueError)"
proof (cases "3 \<le> length columns")
  case True
  with assms show ?thesis by (simp add: feature_x_unknown)
next
  case False
  then show ?thesis by (simp add: feature_x_short)
qed

section \<open>The claims about unknown locations and about the price per area\<close>

text \<open>
  C2, as the program has it. For a location that is not in the column list the
  construction of the vector raises and no vector, partial or whole, is returned; with
  at least three columns the exception is the \<^verbatim>\<open>ValueError\<close> of \<^verbatim>\<open>columns.index\<close>. The handler
  of the predict button reports it and shows no card. \<^verbatim>\<open>get_price_per_sqft\<close> reports it as
  well, and returns the value 0 to its caller.
\<close>

theorem unknown_location_rejected:
  assumes "location \<notin> set columns"
  shows "\<exists>e. feature_x columns area bathrooms bedrooms location = Inl e
           \<and> (3 \<le> length columns \<longrightarrow> e = ValueError)
           \<and> predict_button R model columns area bathrooms bedrooms location g =
                 ([PredictionError e, CheckInputs], g)
           \<and> get_price_per_sqft model columns location area bedrooms bathrooms =
                 ([SqftError e], Finite 0)"
proof -
  from feature_x_not_member [OF assms] obtain e
    where e: "feature_x columns area bathrooms bedrooms location = Inl e"
      and v: "3 \<le> length columns \<longrightarrow> e = ValueError"
    by blast
  have "predict_button R model columns area bathrooms bedrooms location g =
          ([PredictionError e, CheckInputs], g)"
    by (rule predict_button_of_error [OF predict_price_of_feature_error [OF e]])
  moreover have "get_price_per_sqft model columns location area bedrooms bathrooms =
          ([SqftError e], Finite 0)"
    by (rule get_price_per_sqft_Inl [OF body_of_feature_error [OF e]])
  ultimately show ?thesis using e v by blast
qed

theorem unknown_location_rejected_witness:
  "str ''nowhere'' \<notin> set [str ''area'', str ''bath'', str ''bhk'', str ''loc_a'', str ''loc_b'']
   \<and> feature_x [str ''area'', str ''bath'', str ''bhk'', str ''loc_a'', str ''loc_b'']
         1000 2 3 (str ''nowhere'') = Inl ValueError
   \<and> predict_button numpy_mt (\<lambda>x. Inr (sum_list x))
         [str ''area'', str ''bath'', str ''bhk'', str ''loc_a'', str ''loc_b'']
         1000 2 3 (str ''nowhere'') (MT (mt_init 0) 624) =
       ([PredictionError ValueError, CheckInputs], MT (mt_init 0) 624)
   \<and> get_price_per_sqft (\<lambda>x. Inr (sum_list x))
         [str ''area'', str ''bath'', str ''bhk'', str ''loc_a'', str ''loc_b'']
         (str ''nowhere'') 1000 3 2 = ([SqftError ValueError], Finite 0)"
proof -
  have a: "str ''nowhere'' \<notin> set [str ''area'', str ''bath'', str ''bhk'', str ''loc_a'', str ''loc_b'']"
    by (simp add: str_def)
  from unknown_location_rejected [OF a, of 1000 2 3 numpy_mt "\<lambda>x. Inr (sum_list x)"
      "MT (mt_init 0) 624"] a
  show ?thesis by auto
qed

text \<open>
  C2 as stated fails in \<^verbatim>\<open>get_price_per_sqft\<close>: there the unknown location gives the caller
  a zero-valued result, the number 0, and not an exception.
\<close>

theorem unknown_location_zero_counterexample:
  "str ''nowhere'' \<notin> set [str ''area'', str ''bath'', str ''bhk'', str ''loc_a'', str ''loc_b'']
   \<and> get_price_per_sqft (\<lambda>x. Inr (sum_list x))
         [str ''area'', str ''bath'', str ''bhk'', str ''loc_a'', str ''loc_b'']
         (str ''nowhere'') 1000 2 2 = ([SqftError ValueError], Finite 0)"
  by (simp add: get_price_per_sqft_def price_per_sqft_body_def feature_x_def and_then_def
      setitem_def str_def)

text \<open>
  C9. \<^verbatim>\<open>get_price_per_sqft\<close> always returns a number: the quotient when the vector is built
  and the model returns a price, and exactly 0, with the error shown, when the construction
  of the vector or the model raises; so also for every location absent from the columns.
  The division is a division of \<^verbatim>\<open>np.float64\<close> and does not raise.
\<close>

theorem get_price_per_sqft_never_raises:
  "((\<exists>r. price_per_sqft_body model columns location area bhk bath = Inr r
         \<and> get_price_per_sqft model columns location area bhk bath = ([], r))
     \<or> (\<exists>e. price_per_sqft_body model columns location area bhk bath = Inl e
         \<and> get_price_per_sqft model columns location area bhk bath =
               ([SqftError e], Finite 0)))
   \<and> (\<forall>e. feature_x columns area bath bhk location = Inl e \<longrightarrow>
         get_price_per_sqft model columns location area bhk bath = ([SqftError e], Finite 0))
   \<and> (\<forall>x e. feature_x columns area bath bhk location = Inr x \<and> model x = Inl e \<longrightarrow>
         get_price_per_sqft model columns location area bhk bath = ([SqftError e], Finite 0))
   \<and> (\<forall>x p. feature_x columns area bath bhk location = Inr x \<and> model x = Inr p \<longrightarrow>
         get_price_per_sqft model columns location area bhk bath =
           ([], np_div (Finite p) (Finite area)))
   \<and> (location \<notin> set columns \<longrightarrow>
         snd (get_price_per_sqft model columns location area bhk bath) = Finite 0)"
proof -
  have total: "(\<exists>r. price_per_sqft_body model columns location area bhk bath = Inr r
         \<and> get_price_per_sqft model columns location area bhk bath = ([], r))
     \<or> (\<exists>e. price_per_sqft_body model columns location area bhk bath = Inl e
         \<and> get_price_per_sqft model columns location area bhk bath =
               ([SqftError e], Finite 0))"
    by (cases "price_per_sqft_body model columns location area bhk bath")
      (simp_all add: get_price_per_sqft_def)
  have vec: "\<forall>e. feature_x columns area bath bhk location = Inl e \<longrightarrow>
         get_price_per_sqft model columns location area bhk bath = ([SqftError e], Finite 0)"
    using get_price_per_sqft_Inl [OF body_of_feature_error] by blast
  have mdl: "\<forall>x e. feature_x columns area bath bhk location = Inr x \<and> model x = Inl e \<longrightarrow>
         get_price_per_sqft model columns location area bhk bath = ([SqftError e], Finite 0)"
    using get_price_per_sqft_Inl [OF body_of_model_error] by blast
  have dv: "\<forall>x p. feature_x columns area bath bhk location = Inr x \<and> model x = Inr p \<longrightarrow>
         get_price_per_sqft model columns location area bhk bath =
           ([], np_div (Finite p) (Finite area))"
    using get_price_per_sqft_Inr [OF body_of_price] by blast
  have unknown: "location \<notin> set columns \<longrightarrow>
         snd (get_price_per_sqft model columns location area bhk bath) = Finite 0"
  proof
    assume "location \<notin> set columns"
    from feature_x_not_member [OF this] obtain e'
      where "feature_x columns area bath bhk location = Inl e'" by blast
    from get_price_per_sqft_Inl [OF body_of_feature_error [OF this]] show
      "snd (get_price_per_sqft model columns location area bhk bath) = Finite 0" by simp
  qed
  from total vec mdl dv unknown show ?thesis by blast
qed

theorem get_price_per_sqft_never_raises_witness:
  "get_price_per_sqft (\<lambda>x. Inr (sum_list x))
     [str ''area'', str ''bath'', str ''bhk'', str ''loc_a'', str ''loc_b'']
     (str ''nowhere'') 1000 2 2 = ([SqftError ValueError], Finite 0)
   \<and> get_price_per_sqft (\<lambda>x. Inl (Raised ''predict''))
     [str ''area'', str ''bath'', str ''bhk'', str ''loc_a'', str ''loc_b'']
     (str ''loc_a'') 1000 2 2 = ([SqftError (Raised ''predict'')], Finite 0)
   \<and> get_price_per_sqft (\<lambda>x. Inr (sum_list x))
     [str ''area'', str ''bath'', str ''bhk'', str ''loc_a'', str ''loc_b'']
     (str ''loc_a'') 1000 2 2 = ([], Finite (1131529406376837 / 1125899906842624))"
proof -
  let ?cols = "[str ''area'', str ''bath'', str ''bhk'', str ''loc_a'', str ''loc_b'']"
  have a: "feature_x ?cols 1000 2 2 (str ''nowhere'') = Inl ValueError"
    by (simp add: feature_x_def and_then_def setitem_def str_def)
  have b: "feature_x ?cols 1000 2 2 (str ''loc_a'') = Inr [1000, 2, 2, 1, 0]"
    by (simp add: feature_x_def and_then_def setitem_def str_def)
  have q: "np_div (Finite 1005) (Finite 1000) = Finite (1131529406376837 / 1125899906842624)"
    using fl64_eqI [of 0 "1005 / 1000" 4526117625507348] by (simp add: pow2_def)
  from get_price_per_sqft_never_raises
         [of "\<lambda>x. Inr (sum_list x)" ?cols "str ''nowhere''" 1000 2 2] a
  have 1: "get_price_per_sqft (\<lambda>x. Inr (sum_list x)) ?cols (str ''nowhere'') 1000 2 2
             = ([SqftError ValueError], Finite 0)" by blast
  from get_price_per_sqft_never_raises
         [of "\<lambda>x. Inl (Raised ''predict'')" ?cols "str ''loc_a''" 1000 2 2] b
  have 2: "get_price_per_sqft (\<lambda>x. Inl (Raised ''predict'')) ?cols (str ''loc_a'') 1000 2 2
             = ([SqftError (Raised ''predict'')], Finite 0)" by blast
  from get_price_per_sqft_never_raises
         [of "\<lambda>x. Inr (sum_list x)" ?cols "str ''loc_a''" 1000 2 2] b
  have "get_price_per_sqft (\<lambda>x. Inr (sum_list x)) ?cols (str ''loc_a'') 1000 2 2
             = ([], np_div (Finite (sum_list [1000, 2, 2, 1, 0])) (Finite 1000))" by blast
  with q have 3: "get_price_per_sqft (\<lambda>x. Inr (sum_list x)) ?cols (str ''loc_a'') 1000 2 2
             = ([], Finite (1131529406376837 / 1125899906842624))" by simp
  from 1 2 3 show ?thesis by blast
qed

text \<open>
  C7. For a positive area, a vector that is built and a model that returns a total price,
  the price per area is the total price divided by the area, in the handler of the
  predict button as in \<^verbatim>\<open>get_price_per_sqft\<close>, and the division does not raise. The quotient
  is the quotient of \<^verbatim>\<open>np.float64\<close>, the exact one rounded to binary64: for a quotient up to
  \<open>10 ^ 18\<close> it is a finite number within 12 parts in \<open>10 ^ 17\<close> of the exact quotient.
\<close>

theorem price_per_area:
  assumes "0 < area"
    and "feature_x columns area bathrooms bedrooms location = Inr x"
    and "model x = Inr total_price"
  shows "predict_price model columns area bathrooms bedrooms location =
           Inr (total_price, fl64 (total_price / area))
         \<and> get_price_per_sqft model columns location area bedrooms bathrooms =
           ([], fl64 (total_price / area))
         \<and> np_div (Finite total_price) (Finite area) = fl64 (total_price / area)
         \<and> (\<bar>total_price / area\<bar> \<le> 10 ^ 18 \<longrightarrow>
              (\<exists>r. fl64 (total_price / area) = Finite r
                 \<and> \<bar>r - total_price / area\<bar> \<le>
                     12 * \<bar>total_price / area\<bar> / 10 ^ 17 + 1 / 10 ^ 30))"
proof -
  from assms(1) have d: "np_div (Finite total_price) (Finite area) = fl64 (total_price / area)"
    by simp
  have "predict_price model columns area bathrooms bedrooms location =
           Inr (total_price, fl64 (total_price / area))"
    using assms(2,3) d by (simp add: predict_price_def and_then_def)
  moreover have "get_price_per_sqft model columns location area bedrooms bathrooms =
           ([], fl64 (total_price / area))"
    using assms(2,3) d
    by (simp add: get_price_per_sqft_def price_per_sqft_body_def and_then_def)
  moreover have "\<bar>total_price / area\<bar> \<le> 10 ^ 18 \<longrightarrow>
              (\<exists>r. fl64 (total_price / area) = Finite r
                 \<and> \<bar>r - total_price / area\<bar> \<le>
                     12 * \<bar>total_price / area\<bar> / 10 ^ 17 + 1 / 10 ^ 30)"
    using fl64_error_small [of "total_price / area"] by blast
  ultimately show ?thesis using d by blast
qed

theorem price_per_area_witness:
  "(0::real) < 1000
   \<and> feature_x [str ''area'', str ''bath'', str ''bhk'', str ''loc_a'', str ''loc_b'']
        1000 2 3 (str ''loc_b'') = Inr [1000, 2, 3, 0, 1]
   \<and> predict_price (\<lambda>x. Inr (5000 * sum_list x))
        [str ''area'', str ''bath'', str ''bhk'', str ''loc_a'', str ''loc_b'']
        1000 2 3 (str ''loc_b'') = Inr (5030000, Finite 5030)
   \<and> \<bar>5030000 / 1000 :: real\<bar> \<le> 10 ^ 18"
proof -
  let ?cols = "[str ''area'', str ''bath'', str ''bhk'', str ''loc_a'', str ''loc_b'']"
  have a: "(0::real) < 1000" by simp
  have b: "feature_x ?cols 1000 2 3 (str ''loc_b'') = Inr [1000, 2, 3, 0, 1]"
    by (simp add: feature_x_def and_then_def setitem_def str_def)
  have q: "fl64 5030 = Finite 5030"
    using fl64_eqI [of 12 5030 5530543487713280] by (simp add: pow2_def)
  from price_per_area [of 1000 ?cols 2 3 "str ''loc_b''" "[1000, 2, 3, 0, 1]"
         "\<lambda>x. Inr (5000 * sum_list x)" 5030000] a b q
  show ?thesis by simp
qed

section \<open>Facts about the projection\<close>

text \<open>
  The value of \<^verbatim>\<open>round(P * g, 2)\<close> in binary64 against the exact product \<open>P * w\<close>, for a factor
  \<open>g\<close> close to \<open>w\<close>.
\<close>

lemma np_round2_product:
  assumes P: "\<bar>P\<bar> \<le> 10 ^ 15" and G: "0 \<le> G" "G \<le> 3" and w: "\<bar>G - w\<bar> \<le> 3 / 10 ^ 15"
  shows "\<exists>r. np_round (np_mul (Finite P) (Finite G)) 2 = Finite r
           \<and> \<bar>r - P * w\<bar> \<le> 1 / 200 + (\<bar>P\<bar> + 1) / 10 ^ 14"
proof -
  have pg: "\<bar>P * G\<bar> \<le> 3 * \<bar>P\<bar>"
    using G mult_left_mono [of G 3 "\<bar>P\<bar>"] by (simp add: abs_mult mult.commute)
  have "\<bar>P * G - P * w\<bar> = \<bar>P\<bar> * \<bar>G - w\<bar>" by (simp add: abs_mult [symmetric] right_diff_distrib)
  also have "\<dots> \<le> \<bar>P\<bar> * (3 / 10 ^ 15)" using w by (intro mult_left_mono) simp_all
  finally have gw: "\<bar>P * G - P * w\<bar> \<le> 3 * \<bar>P\<bar> / 10 ^ 15" by simp
  from pg P have "\<bar>P * G\<bar> \<le> 10 ^ 18" by (simp; linarith)
  from fl64_error_small [OF this] obtain a
    where a: "fl64 (P * G) = Finite a"
      and ea: "\<bar>a - P * G\<bar> \<le> 12 * \<bar>P * G\<bar> / 10 ^ 17 + 1 / 10 ^ 30" by blast
  from ea pg P have ab: "\<bar>a\<bar> \<le> 301 * \<bar>P\<bar> / 100 + 1 / 10 ^ 30" by (simp; linarith)
  with P have "\<bar>a * 100\<bar> \<le> 10 ^ 18" by (simp; linarith)
  from fl64_error_small [OF this] obtain b
    where b: "fl64 (a * 100) = Finite b"
      and eb: "\<bar>b - a * 100\<bar> \<le> 12 * \<bar>a * 100\<bar> / 10 ^ 17 + 1 / 10 ^ 30" by blast
  define c where "c = rint b"
  from rint_close [of b] have ec: "\<bar>of_int c - b\<bar> \<le> 1 / 2" by (simp add: c_def)
  from eb ab P have bb: "\<bar>b\<bar> \<le> 302 * \<bar>P\<bar> + 1 / 10 ^ 20" by (simp; linarith)
  with ec P have "\<bar>of_int c / 100 :: real\<bar> \<le> 10 ^ 18" by (simp; linarith)
  from fl64_error_small [OF this] obtain r
    where r: "fl64 (of_int c / 100) = Finite r"
      and er: "\<bar>r - of_int c / 100\<bar> \<le> 12 * \<bar>of_int c / 100 :: real\<bar> / 10 ^ 17 + 1 / 10 ^ 30"
    by blast
  have val: "np_round (np_mul (Finite P) (Finite G)) 2 = Finite r"
    by (simp add: np_round_def a b c_def [symmetric] r)
  define cr :: real where "cr = of_int c"
  define x where "x = P * G"
  define y where "y = P * w"
  define d1 where "d1 = \<bar>r - cr / 100\<bar>"
  define d2 where "d2 = \<bar>cr / 100 - b / 100\<bar>"
  define d3 where "d3 = \<bar>b / 100 - a\<bar>"
  define d4 where "d4 = \<bar>a - x\<bar>"
  define d5 where "d5 = \<bar>x - y\<bar>"
  define p where "p = \<bar>P\<bar>"
  define A where "A = \<bar>a\<bar>"
  define B where "B = \<bar>b / 100\<bar>"
  define C where "C = \<bar>cr / 100\<bar>"
  have "\<bar>r - y\<bar> \<le> d1 + \<bar>cr / 100 - y\<bar>" unfolding d1_def by linarith
  moreover have "\<bar>cr / 100 - y\<bar> \<le> d2 + \<bar>b / 100 - y\<bar>"
    unfolding d2_def by linarith
  moreover have "\<bar>b / 100 - y\<bar> \<le> d3 + \<bar>a - y\<bar>"
    unfolding d3_def by linarith
  moreover have "\<bar>a - y\<bar> \<le> d4 + d5" unfolding d4_def d5_def by linarith
  ultimately have tri: "\<bar>r - y\<bar> \<le> d1 + d2 + d3 + d4 + d5" by linarith
  have cb: "C \<le> B + d2" unfolding C_def B_def d2_def by linarith
  have ba: "B \<le> A + d3" unfolding A_def B_def d3_def by linarith
  from er have e1: "d1 \<le> 12 * C / 100000000000000000 + 1 / 10 ^ 30"
    by (simp add: d1_def C_def cr_def)
  from ec have "\<bar>cr - b\<bar> \<le> 1 / 2" by (simp add: cr_def)
  then have e2: "d2 \<le> 1 / 200" unfolding d2_def by linarith
  define E where "E = 12 * (100 * A) / 100000000000000000 + 1 / 10 ^ 30"
  from eb have "\<bar>b - a * 100\<bar> \<le> E" by (simp add: E_def A_def abs_mult)
  then have "d3 \<le> E / 100" unfolding d3_def by linarith
  then have e3: "d3 \<le> 12 * A / 100000000000000000 + 1 / 10 ^ 32" by (simp add: E_def)
  from ea pg have e4: "d4 \<le> 12 * (3 * p) / 100000000000000000 + 1 / 10 ^ 30"
    unfolding d4_def p_def x_def by (simp; linarith)
  from gw have e5: "d5 \<le> 3 * p / 1000000000000000" by (simp add: d5_def p_def x_def y_def)
  from ab have bA: "A \<le> 301 * p / 100 + 1 / 10 ^ 30" by (simp add: A_def p_def)
  have p0: "0 \<le> p" by (simp add: p_def)
  from tri cb ba e1 e2 e3 e4 e5 bA p0
  have "\<bar>r - y\<bar> \<le> 1 / 200 + (p + 1) / 100000000000000" by (simp; argo)
  then have "\<bar>r - P * w\<bar> \<le> 1 / 200 + (\<bar>P\<bar> + 1) / 10 ^ 14" by (simp add: p_def y_def)
  with val show ?thesis by blast
qed

text \<open>
  The constants of the projection: 0.07, 1.07 and the three powers, as binary64 numbers;
  the values of the cards for the prices 1,000,000 and 1,844,456.
\<close>

lemma annual_growth_rate_value: "annual_growth_rate = Finite (1261007895663739 / 18014398509481984)"
  using fl64_eqI [of "- 4" "7 / 100" 5044031582654956] by (simp add: pow2_def annual_growth_rate_def)

lemma one_plus_rate: "np_add (Finite 1) annual_growth_rate = Finite (4818851601286431 / 4503599627370496)"
  using fl64_eqI [of 0 "19275406405145723 / 18014398509481984" 4818851601286431] by (simp add: pow2_def annual_growth_rate_value)

lemma growth_5: "py_pow (Finite (4818851601286431 / 4503599627370496)) 5 = Finite (3158265725874183 / 2251799813685248)"
  using fl64_eqI [of 0 "2598470322578667521553785334280520360466311914861304650046632532399857789301151 / 1852673427797059126777135760139006525652319754650249024631321344126610074238976" 6316531451748366] by (simp add: pow2_def power_divide)

lemma growth_10: "py_pow (Finite (4818851601286431 / 4503599627370496)) 10 = Finite (8859262119670657 / 4503599627370496)"
  using fl64_eqI [of 0 "6752048017322084446460469136274763373192115450750503677372615095973426460162162651259888264130197119314035585979097830031654999774256614953467667120969924801 / 3432398830065304857490950399540696608634717650071652704697231729592771591698828026061279820330727277488648155695740429018560993999858321906287014145557528576" 8859262119670657] by (simp add: pow2_def power_divide)

lemma growth_15: "py_pow (Finite (4818851601286431 / 4503599627370496)) 15 = Finite (6212786709334517 / 2251799813685248)"
  using fl64_eqI [of 1 "17544996389637569240901247830343718426861804722692555322463311663962277630726277713706850220001312535534802183277139960760137235608192463456309705704582127971719309026105127952984319007604712051755831364170675647150997219571338812745951 / 6359114106063703798370219984742410466332205126109989319225557147754704702203399726411277962562135973685197744935448875852478791860694279747355800678568677946181447581781401213133886609947027230004277244697462656003657100713230572978176" 6212786709334517] by (simp add: pow2_def power_divide)

lemma roi_years_5:
  "roi_years P 5 = np_round (np_mul (Finite P) (Finite (3158265725874183 / 2251799813685248))) 2"
  by (simp only: roi_years_def one_plus_rate growth_5)

lemma roi_years_10:
  "roi_years P 10 = np_round (np_mul (Finite P) (Finite (8859262119670657 / 4503599627370496))) 2"
  by (simp only: roi_years_def one_plus_rate growth_10)

lemma roi_years_15:
  "roi_years P 15 = np_round (np_mul (Finite P) (Finite (6212786709334517 / 2251799813685248))) 2"
  by (simp only: roi_years_def one_plus_rate growth_15)

lemma growth_5_close: "\<bar>3158265725874183 / 2251799813685248 - 1.07 ^ 5\<bar> \<le> (3 / 10 ^ 15 :: real)"
  by (simp add: power_divide)

lemma growth_10_close: "\<bar>8859262119670657 / 4503599627370496 - 1.07 ^ 10\<bar> \<le> (3 / 10 ^ 15 :: real)"
  by (simp add: power_divide)

lemma growth_15_close: "\<bar>6212786709334517 / 2251799813685248 - 1.07 ^ 15\<bar> \<le> (3 / 10 ^ 15 :: real)"
  by (simp add: power_divide)

lemma roi_million_5_product: "np_mul (Finite 1000000) (Finite (3158265725874183 / 2251799813685248)) = Finite (6023913814304701 / 4294967296)"
  using fl64_eqI [of 20 "49347901966784109375 / 35184372088832" 6023913814304701] by (simp add: pow2_def)

lemma roi_million_5_scaled: "np_mul (Finite (6023913814304701 / 4294967296)) (Finite (10 ^ 2)) = Finite (1176545666856387 / 8388608)"
  using fl64_eqI [of 27 "150597845357617525 / 1073741824" 4706182667425548] by (simp add: pow2_def)

lemma roi_million_5_rint: "rint (1176545666856387 / 8388608) = 140255173"
  by (rule rint_eq) simp_all

lemma roi_million_5_divided: "np_div (Finite 140255173) (Finite (10 ^ 2)) = Finite (3011956905649111 / 2147483648)"
  using fl64_eqI [of 20 "140255173 / 100" 6023913811298222] by (simp add: pow2_def)

lemma roi_million_5: "roi_years 1000000 5 = Finite (3011956905649111 / 2147483648)"
  by (simp only: roi_years_5 np_round_def roi_million_5_product roi_million_5_scaled
      np_rint.simps roi_million_5_rint of_int_numeral roi_million_5_divided)

lemma gain_million_5_quotient: "np_div (Finite (3011956905649111 / 2147483648)) (Finite 1000000) = Finite (1579132862148961 / 1125899906842624)"
  using fl64_eqI [of 0 "3011956905649111 / 2147483648000000" 6316531448595844] by (simp add: pow2_def)

lemma gain_million_5_minus_one: "np_sub (Finite (1579132862148961 / 1125899906842624)) (Finite 1) = Finite (453232955306337 / 1125899906842624)"
  using fl64_eqI [of "- 2" "453232955306337 / 1125899906842624" 7251727284901392] by (simp add: pow2_def)

lemma gain_million_5_percent: "np_mul (Finite (453232955306337 / 1125899906842624)) (Finite 100) = Finite (1416352985332303 / 35184372088832)"
  using fl64_tieI [of 5 "11330823882658425 / 281474976710656" 5665411941329212] by (simp add: pow2_def rint_def)

lemma gain_million_5: "percent_gain (Finite (3011956905649111 / 2147483648)) 1000000 = Finite (1416352985332303 / 35184372088832)"
  by (simp only: percent_gain_def gain_million_5_quotient gain_million_5_minus_one gain_million_5_percent)

lemma roi_million_10_product: "np_mul (Finite 1000000) (Finite (8859262119670657 / 4503599627370496)) = Finite (8448850745840699 / 4294967296)"
  using fl64_eqI [of 20 "138425970619854015625 / 70368744177664" 8448850745840699] by (simp add: pow2_def)

lemma roi_million_10_scaled: "np_mul (Finite (8448850745840699 / 4294967296)) (Finite (10 ^ 2)) = Finite (3300332322594023 / 16777216)"
  using fl64_eqI [of 27 "211221268646017475 / 1073741824" 6600664645188046] by (simp add: pow2_def)

lemma roi_million_10_rint: "rint (3300332322594023 / 16777216) = 196715136"
  by (rule rint_eq) simp_all

lemma roi_million_10_divided: "np_div (Finite 196715136) (Finite (10 ^ 2)) = Finite (8448850757481923 / 4294967296)"
  using fl64_eqI [of 20 "49178784 / 25" 8448850757481923] by (simp add: pow2_def)

lemma roi_million_10: "roi_years 1000000 10 = Finite (8448850757481923 / 4294967296)"
  by (simp only: roi_years_10 np_round_def roi_million_10_product roi_million_10_scaled
      np_rint.simps roi_million_10_rint of_int_numeral roi_million_10_divided)

lemma gain_million_10_quotient: "np_div (Finite (8448850757481923 / 4294967296)) (Finite 1000000) = Finite (8859262131877365 / 4503599627370496)"
  using fl64_eqI [of 0 "8448850757481923 / 4294967296000000" 8859262131877365] by (simp add: pow2_def)

lemma gain_million_10_minus_one: "np_sub (Finite (8859262131877365 / 4503599627370496)) (Finite 1) = Finite (4355662504506869 / 4503599627370496)"
  using fl64_eqI [of "- 1" "4355662504506869 / 4503599627370496" 8711325009013738] by (simp add: pow2_def)

lemma gain_million_10_percent: "np_mul (Finite (4355662504506869 / 4503599627370496)) (Finite 100) = Finite (6805722663291983 / 70368744177664)"
  using fl64_eqI [of 6 "108891562612671725 / 1125899906842624" 6805722663291983] by (simp add: pow2_def)

lemma gain_million_10: "percent_gain (Finite (8448850757481923 / 4294967296)) 1000000 = Finite (6805722663291983 / 70368744177664)"
  by (simp only: percent_gain_def gain_million_10_quotient gain_million_10_minus_one gain_million_10_percent)

lemma roi_million_15_product: "np_mul (Finite 1000000) (Finite (6212786709334517 / 2251799813685248)) = Finite (5924975118002431 / 2147483648)"
  using fl64_eqI [of 21 "97074792333351828125 / 35184372088832" 5924975118002431] by (simp add: pow2_def)

lemma roi_million_15_scaled: "np_mul (Finite (5924975118002431 / 2147483648)) (Finite (10 ^ 2)) = Finite (4628886810939399 / 16777216)"
  using fl64_eqI [of 28 "148124377950060775 / 536870912" 4628886810939399] by (simp add: pow2_def)

lemma roi_million_15_rint: "rint (4628886810939399 / 16777216) = 275903154"
  by (rule rint_eq) simp_all

lemma roi_million_15_divided: "np_div (Finite 275903154) (Finite (10 ^ 2)) = Finite (2962487558233129 / 1073741824)"
  using fl64_eqI [of 21 "137951577 / 50" 5924975116466258] by (simp add: pow2_def)

lemma roi_million_15: "roi_years 1000000 15 = Finite (2962487558233129 / 1073741824)"
  by (simp only: roi_years_15 np_round_def roi_million_15_product roi_million_15_scaled
      np_rint.simps roi_million_15_rint of_int_numeral roi_million_15_divided)

lemma gain_million_15_quotient: "np_div (Finite (2962487558233129 / 1073741824)) (Finite 1000000) = Finite (6212786707723723 / 2251799813685248)"
  using fl64_eqI [of 1 "2962487558233129 / 1073741824000000" 6212786707723723] by (simp add: pow2_def)

lemma gain_million_15_minus_one: "np_sub (Finite (6212786707723723 / 2251799813685248)) (Finite 1) = Finite (3960986894038475 / 2251799813685248)"
  using fl64_eqI [of 0 "3960986894038475 / 2251799813685248" 7921973788076950] by (simp add: pow2_def)

lemma gain_million_15_percent: "np_mul (Finite (3960986894038475 / 2251799813685248)) (Finite 100) = Finite (6189042021935117 / 35184372088832)"
  using fl64_eqI [of 7 "99024672350961875 / 562949953421312" 6189042021935117] by (simp add: pow2_def)

lemma gain_million_15: "percent_gain (Finite (2962487558233129 / 1073741824)) 1000000 = Finite (6189042021935117 / 35184372088832)"
  by (simp only: percent_gain_def gain_million_15_quotient gain_million_15_minus_one gain_million_15_percent)

lemma roi_1844456_5_product: "np_mul (Finite 1844456) (Finite (3158265725874183 / 2251799813685248)) = Finite (1388855497284649 / 536870912)"
  using fl64_eqI [of 21 "728160270960374009931 / 281474976710656" 5555421989138596] by (simp add: pow2_def)

lemma roi_1844456_5_scaled: "np_mul (Finite (1388855497284649 / 536870912)) (Finite (10 ^ 2)) = Finite (517388991 / 2)"
  using fl64_eqI [of 27 "34721387432116225 / 134217728" 8680346858029056] by (simp add: pow2_def)

lemma roi_1844456_5_rint: "rint (517388991 / 2) = 258694496"
  by (simp add: rint_def)

lemma roi_1844456_5_divided: "np_div (Finite 258694496) (Finite (10 ^ 2)) = Finite (2777710999938007 / 1073741824)"
  using fl64_eqI [of 21 "64673624 / 25" 5555421999876014] by (simp add: pow2_def)

lemma roi_1844456_5: "roi_years 1844456 5 = Finite (2777710999938007 / 1073741824)"
  by (simp only: roi_years_5 np_round_def roi_1844456_5_product roi_1844456_5_scaled
      np_rint.simps roi_1844456_5_rint of_int_numeral roi_1844456_5_divided)


lemma roi_years_close:
  assumes "\<bar>P\<bar> \<le> 10 ^ 15" and "h = 5 \<or> h = 10 \<or> h = 15"
  shows "\<exists>r. roi_years P h = Finite r
           \<and> \<bar>r - P * 1.07 ^ h\<bar> \<le> 1 / 200 + (\<bar>P\<bar> + 1) / 10 ^ 14"
proof -
  from assms(2) consider "h = 5" | "h = 10" | "h = 15" by blast
  then show ?thesis
  proof cases
    case 1
    from np_round2_product [OF assms(1) _ _ growth_5_close] show ?thesis
      by (simp add: 1 roi_years_5)
  next
    case 2
    from np_round2_product [OF assms(1) _ _ growth_10_close] show ?thesis
      by (simp add: 2 roi_years_10)
  next
    case 3
    from np_round2_product [OF assms(1) _ _ growth_15_close] show ?thesis
      by (simp add: 3 roi_years_15)
  qed
qed

lemma np_round2_zero: "np_round (np_mul (Finite 0) (Finite G)) 2 = Finite 0"
proof -
  have "rint 0 = 0" using rint_of_int [of 0] by simp
  then show ?thesis by (simp add: np_round_def fl64_zero)
qed

lemma roi_years_zero:
  "roi_years 0 5 = Finite 0" "roi_years 0 10 = Finite 0" "roi_years 0 15 = Finite 0"
  by (simp_all only: roi_years_5 roi_years_10 roi_years_15 np_round2_zero)

lemma percent_gain_zero: "percent_gain (Finite 0) 0 = NaN"
  by (simp add: percent_gain_def signed_inf_def)

section \<open>Facts about the handler of the predict button\<close>

lemma predict_button_cards:
  assumes "predict_price model columns area bathrooms bedrooms location = Inr (p, pps)"
  shows "predict_button R model columns area bathrooms bedrooms location g =
           (case environmental R location g of
              (Inl e, g') \<Rightarrow>
                (PriceCard p pps # roi_cards p @ [PredictionError e, CheckInputs], g')
            | (Inr (aqi, noise, green), g') \<Rightarrow>
                (PriceCard p pps # roi_cards p @
                   [AqiCard aqi, NoiseCard noise, GreenCard green], g'))"
  using assms
  by (simp add: predict_button_def failed_def Let_def split: prod.splits sum.splits)

section \<open>Facts about the environmental analysis\<close>

lemma environmental_seed_error:
  "np_seed R (sum_list (map ord location)) = Inl e \<Longrightarrow>
     environmental R location g = (Inl e, g)"
  by (simp add: environmental_def)

lemma environmental_seeded:
  "np_seed R (sum_list (map ord location)) = Inr g0 \<Longrightarrow>
     environmental R location g = (Inr (fst (draws R g0)), snd (draws R g0))"
  by (simp add: environmental_def split: prod.splits)

lemma draws_unfold:
  assumes "np_randint R 50 200 g0 = (aqi, g1)"
    and "np_randint R 30 90 g1 = (noise, g2)"
    and "np_uniform R 5 30 g2 = (u, g3)"
  shows "draws R g0 = ((aqi, noise, py_round u 2), g3)"
  using assms by (simp add: draws_def)

lemma environmental_state_free:
  "fst (environmental R location g) = fst (environmental R location g')"
  by (cases "np_seed R (sum_list (map ord location))")
    (simp_all add: environmental_seed_error environmental_seeded)

section \<open>Facts about the model of numpy's generator\<close>

lemma temper_range: "0 \<le> temper y \<and> temper y < 4294967296"
  by (simp add: temper_def Let_def)

lemma mt_next_range: "0 \<le> fst (mt_next st) \<and> fst (mt_next st) < 4294967296"
  by (cases st) (simp add: temper_range)

lemma gen_mask_nonneg: "0 \<le> rng \<Longrightarrow> 0 \<le> gen_mask rng"
  by (simp add: gen_mask_def Let_def)

lemma bounded_masked_range:
  "0 \<le> rng \<Longrightarrow> 0 \<le> msk \<Longrightarrow>
     0 \<le> fst (bounded_masked fuel rng msk st) \<and> fst (bounded_masked fuel rng msk st) \<le> rng"
proof (induction fuel arbitrary: st)
  case 0
  then show ?case by simp
next
  case (Suc fuel)
  then show ?case
    by (auto simp: Let_def split: prod.splits)
qed

lemma mt_randint_range:
  assumes "lo < hi"
  shows "lo \<le> fst (mt_randint lo hi st) \<and> fst (mt_randint lo hi st) < hi"
proof (cases "hi - 1 - lo = 0")
  case True
  with assms show ?thesis by (simp add: mt_randint_def)
next
  case False
  from assms have rng: "0 \<le> hi - 1 - lo" by simp
  obtain v st' where b: "bounded_masked 1000 (hi - 1 - lo) (gen_mask (hi - 1 - lo)) st = (v, st')"
    by (cases "bounded_masked 1000 (hi - 1 - lo) (gen_mask (hi - 1 - lo)) st")
  from bounded_masked_range [OF rng gen_mask_nonneg [OF rng], of 1000 st] b
  have v: "0 \<le> v" "v \<le> hi - 1 - lo" by simp_all
  from False b have "fst (mt_randint lo hi st) = lo + v"
    by (simp add: mt_randint_def Let_def)
  with v show ?thesis by simp
qed

lemma mt_double_range: "0 \<le> fst (mt_double st) \<and> fst (mt_double st) < 1"
proof -
  obtain w1 st1 where n1: "mt_next st = (w1, st1)" by (cases "mt_next st")
  obtain w2 st2 where n2: "mt_next st1 = (w2, st2)" by (cases "mt_next st1")
  from mt_next_range [of st] n1 have w1: "0 \<le> w1" "w1 < 4294967296" by simp_all
  from mt_next_range [of st1] n2 have w2: "0 \<le> w2" "w2 < 4294967296" by simp_all
  define a where "a = drop_bit 5 w1"
  define b where "b = drop_bit 6 w2"
  have a: "0 \<le> a" "a \<le> 134217727" using w1 by (simp_all add: a_def drop_bit_eq_div)
  have b: "0 \<le> b" "b \<le> 67108863" using w2 by (simp_all add: b_def drop_bit_eq_div)
  have r: "fst (mt_double st) = (of_int a * 67108864 + of_int b) / 9007199254740992"
    by (simp add: mt_double_def n1 n2 a_def b_def)
  from a b have "0 \<le> a * 67108864 + b" "a * 67108864 + b < 9007199254740992" by simp_all
  then have "(0::real) \<le> of_int (a * 67108864 + b)"
    "(of_int (a * 67108864 + b) :: real) < of_int 9007199254740992"
    by (simp_all only: of_int_0_le_iff of_int_less_iff)
  then show ?thesis by (simp add: r)
qed

lemma mt_uniform_range:
  assumes "lo < hi"
  shows "lo \<le> fst (mt_uniform lo hi st) \<and> fst (mt_uniform lo hi st) < hi"
proof -
  define r where "r = fst (mt_double st)"
  from mt_double_range [of st] have r: "0 \<le> r" "r < 1" by (simp_all add: r_def)
  have u: "fst (mt_uniform lo hi st) = lo + (hi - lo) * r"
    by (simp add: mt_uniform_def r_def split: prod.splits)
  from assms r have "0 \<le> (hi - lo) * r" by simp
  moreover from assms r have "(hi - lo) * r < (hi - lo) * 1"
    by (intro mult_strict_left_mono) simp_all
  ultimately show ?thesis by (simp add: u)
qed

lemma numpy_mt_ranges: "numpy_ranges numpy_mt"
  by (simp add: numpy_ranges_def numpy_mt_def mt_randint_range mt_uniform_range)

lemma draws_numpy_mt: "draws numpy_mt g0 = mt_draws g0"
  by (simp add: draws_def mt_draws_def numpy_mt_def)

lemma environmental_numpy_mt:
  assumes "sum_list (map ord location) = seed" and "seed < 4294967296"
  shows "fst (environmental numpy_mt location g) = Inr (fst (mt_draws (MT (mt_init seed) 624)))"
proof -
  from assms have "np_seed numpy_mt (sum_list (map ord location)) = Inr (MT (mt_init seed) 624)"
    by (simp add: numpy_mt_def mt_seed_def)
  from environmental_seeded [OF this] show ?thesis by (simp add: draws_numpy_mt)
qed

text \<open>
  Two runs of the generator: the seed of "civil lines" is 1106, and the seed 29713 is
  that of the string of the one character U+7411.
\<close>

lemma mt_draws_1106: "fst (mt_draws (MT (mt_init 1106) 624)) = (111, 84, 18.88)"
  by code_simp

lemma mt_draws_29713: "fst (mt_draws (MT (mt_init 29713) 624)) = (91, 77, 30)"
  by code_simp

lemma seed_civil_lines: "sum_list (map ord (str ''civil lines'')) = 1106"
  by (simp add: str_def ord_def)

lemma environmental_civil_lines:
  "fst (environmental numpy_mt (str ''civil lines'') g) = Inr (111, 84, 18.88)"
  using environmental_numpy_mt [OF seed_civil_lines] mt_draws_1106 by simp

lemma predict_button_state_free:
  "fst (predict_button R model columns area bathrooms bedrooms location g) =
   fst (predict_button R model columns area bathrooms bedrooms location g')"
proof (cases "predict_price model columns area bathrooms bedrooms location")
  case (Inl e)
  then show ?thesis by (simp add: predict_button_of_error)
next
  case (Inr r)
  obtain p pps where r: "r = (p, pps)" by (cases r)
  have shape: "\<And>h. fst (predict_button R model columns area bathrooms bedrooms location h) =
      (case fst (environmental R location h) of
         Inl e \<Rightarrow> PriceCard p pps # roi_cards p @ [PredictionError e, CheckInputs]
       | Inr (aqi, noise, green) \<Rightarrow>
           PriceCard p pps # roi_cards p @ [AqiCard aqi, NoiseCard noise, GreenCard green])"
    using Inr r
    by (simp add: predict_button_cards split: prod.splits sum.splits)
  show ?thesis
    by (simp only: shape environmental_state_free [of R location g g'])
qed

section \<open>The claims about the projection and the environmental profile\<close>

text \<open>
  C3, as the program has it. The handler shows the horizons 5, 10 and 15. For every total
  price the projected price is \<^verbatim>\<open>round(P * g, 2)\<close>, computed in binary64, where \<open>g\<close> is the
  binary64 value of \<^verbatim>\<open>(1 + 0.07) ** h\<close>: 1.4025517307000004, 1.9671513572895665 and
  2.7590315407153363. For a price up to \<open>10 ^ 15\<close> it is a finite number within
  \<open>0.005 + (\<bar>P\<bar> + 1) / 10 ^ 14\<close> of the exact product of the price and 1.07 to the power of
  the horizon; it is not always that product rounded to two decimals. The gain is
  \<open>(projected / price - 1) * 100\<close>, computed in binary64 as well, and \<^verbatim>\<open>nan\<close> for the price 0. For
  the price 1,000,000 the three values are the binary64 numbers nearest to 1402551.73,
  1967151.36 and 2759031.54, which are the exact products rounded to two decimals.
\<close>

theorem roi_projection:
  "(predict_price model columns area bathrooms bedrooms location = Inr (P, pps) \<longrightarrow>
      take 4 (fst (predict_button R model columns area bathrooms bedrooms location g)) =
        [PriceCard P pps,
         RoiCard 5 (roi_years P 5) (percent_gain (roi_years P 5) P),
         RoiCard 10 (roi_years P 10) (percent_gain (roi_years P 10) P),
         RoiCard 15 (roi_years P 15) (percent_gain (roi_years P 15) P)])
   \<and> roi_years P 5 =
       np_round (np_mul (Finite P) (Finite (3158265725874183 / 2251799813685248))) 2
   \<and> roi_years P 10 =
       np_round (np_mul (Finite P) (Finite (8859262119670657 / 4503599627370496))) 2
   \<and> roi_years P 15 =
       np_round (np_mul (Finite P) (Finite (6212786709334517 / 2251799813685248))) 2
   \<and> (\<bar>P\<bar> \<le> 10 ^ 15 \<and> (h = 5 \<or> h = 10 \<or> h = 15) \<longrightarrow>
        (\<exists>r. roi_years P h = Finite r
           \<and> \<bar>r - P * 1.07 ^ h\<bar> \<le> 1 / 200 + (\<bar>P\<bar> + 1) / 10 ^ 14))
   \<and> percent_gain roi P = np_mul (np_sub (np_div roi (Finite P)) (Finite 1)) (Finite 100)
   \<and> percent_gain (roi_years 0 5) 0 = NaN
   \<and> percent_gain (roi_years 0 10) 0 = NaN
   \<and> percent_gain (roi_years 0 15) 0 = NaN
   \<and> roi_years 1000000 5 = Finite (3011956905649111 / 2147483648)
   \<and> roi_years 1000000 10 = Finite (8448850757481923 / 4294967296)
   \<and> roi_years 1000000 15 = Finite (2962487558233129 / 1073741824)
   \<and> py_round (1000000 * 1.07 ^ 5) 2 = 1402551.73
   \<and> py_round (1000000 * 1.07 ^ 10) 2 = 1967151.36
   \<and> py_round (1000000 * 1.07 ^ 15) 2 = 2759031.54
   \<and> \<bar>3011956905649111 / 2147483648 - 1402551.73\<bar> \<le> (1 / 10 ^ 9 :: real)
   \<and> \<bar>8448850757481923 / 4294967296 - 1967151.36\<bar> \<le> (1 / 10 ^ 9 :: real)
   \<and> \<bar>2962487558233129 / 1073741824 - 2759031.54\<bar> \<le> (1 / 10 ^ 9 :: real)"
proof -
  have cards: "predict_price model columns area bathrooms bedrooms location = Inr (P, pps) \<longrightarrow>
      take 4 (fst (predict_button R model columns area bathrooms bedrooms location g)) =
        [PriceCard P pps,
         RoiCard 5 (roi_years P 5) (percent_gain (roi_years P 5) P),
         RoiCard 10 (roi_years P 10) (percent_gain (roi_years P 10) P),
         RoiCard 15 (roi_years P 15) (percent_gain (roi_years P 15) P)]"
    by (auto simp: predict_button_cards roi_cards_def roi_card_def Let_def
        split: prod.splits sum.splits)
  have close: "\<bar>P\<bar> \<le> 10 ^ 15 \<and> (h = 5 \<or> h = 10 \<or> h = 15) \<longrightarrow>
        (\<exists>r. roi_years P h = Finite r
           \<and> \<bar>r - P * 1.07 ^ h\<bar> \<le> 1 / 200 + (\<bar>P\<bar> + 1) / 10 ^ 14)"
    using roi_years_close [of P h] by blast
  have gain: "percent_gain roi P = np_mul (np_sub (np_div roi (Finite P)) (Finite 1)) (Finite 100)"
    by (simp only: percent_gain_def)
  have zero: "percent_gain (roi_years 0 5) 0 = NaN" "percent_gain (roi_years 0 10) 0 = NaN"
    "percent_gain (roi_years 0 15) 0 = NaN"
    by (simp_all only: roi_years_zero percent_gain_zero)
  have e5: "\<bar>(1000000::real) * 1.07 ^ 5 - of_int 140255173 / 100\<bar> < 4 / 1000"
    by (simp add: power_divide)
  have e10: "\<bar>(1000000::real) * 1.07 ^ 10 - of_int 196715136 / 100\<bar> < 4 / 1000"
    by (simp add: power_divide)
  have e15: "\<bar>(1000000::real) * 1.07 ^ 15 - of_int 275903154 / 100\<bar> < 4 / 1000"
    by (simp add: power_divide)
  have r5: "py_round (1000000 * 1.07 ^ 5) 2 = 1402551.73"
    using py_round2_eq [OF e5] by simp
  have r10: "py_round (1000000 * 1.07 ^ 10) 2 = 1967151.36"
    using py_round2_eq [OF e10] by simp
  have r15: "py_round (1000000 * 1.07 ^ 15) 2 = 2759031.54"
    using py_round2_eq [OF e15] by simp
  have n5: "\<bar>3011956905649111 / 2147483648 - 1402551.73\<bar> \<le> (1 / 10 ^ 9 :: real)" by simp
  have n10: "\<bar>8448850757481923 / 4294967296 - 1967151.36\<bar> \<le> (1 / 10 ^ 9 :: real)" by simp
  have n15: "\<bar>2962487558233129 / 1073741824 - 2759031.54\<bar> \<le> (1 / 10 ^ 9 :: real)" by simp
  from cards roi_years_5 [of P] roi_years_10 [of P] roi_years_15 [of P] close gain zero
    roi_million_5 roi_million_10 roi_million_15 r5 r10 r15 n5 n10 n15
  show ?thesis by blast
qed

theorem roi_projection_witness:
  "predict_price (\<lambda>x. Inr 1000000)
        [str ''area'', str ''bath'', str ''bhk'', str ''loc_a'', str ''loc_b'']
        1000 2 3 (str ''loc_b'') = Inr (1000000, Finite 1000)
   \<and> take 4 (fst (predict_button numpy_mt (\<lambda>x. Inr 1000000)
        [str ''area'', str ''bath'', str ''bhk'', str ''loc_a'', str ''loc_b'']
        1000 2 3 (str ''loc_b'') (MT (mt_init 0) 624))) =
          [PriceCard 1000000 (Finite 1000),
           RoiCard 5 (Finite (3011956905649111 / 2147483648))
             (Finite (1416352985332303 / 35184372088832)),
           RoiCard 10 (Finite (8448850757481923 / 4294967296))
             (Finite (6805722663291983 / 70368744177664)),
           RoiCard 15 (Finite (2962487558233129 / 1073741824))
             (Finite (6189042021935117 / 35184372088832))]
   \<and> \<bar>1000000 :: real\<bar> \<le> 10 ^ 15
   \<and> \<bar>3011956905649111 / 2147483648 - 1000000 * 1.07 ^ 5\<bar>
         \<le> (1 / 200 + (\<bar>1000000\<bar> + 1) / 10 ^ 14 :: real)"
proof -
  let ?cols = "[str ''area'', str ''bath'', str ''bhk'', str ''loc_a'', str ''loc_b'']"
  have q: "fl64 1000 = Finite 1000"
    using fl64_eqI [of 9 1000 8796093022208000] by (simp add: pow2_def)
  have p: "predict_price (\<lambda>x. Inr 1000000) ?cols 1000 2 3 (str ''loc_b'') =
             Inr (1000000, Finite 1000)"
    by (simp add: predict_price_def feature_x_def and_then_def setitem_def str_def q)
  note t = roi_projection [of "\<lambda>x. Inr 1000000" ?cols 1000 2 3 "str ''loc_b''" 1000000
      "Finite 1000" numpy_mt "MT (mt_init 0) 624" 5 "Finite 0"]
  from t have v5: "roi_years 1000000 5 = Finite (3011956905649111 / 2147483648)"
    and v10: "roi_years 1000000 10 = Finite (8448850757481923 / 4294967296)"
    and v15: "roi_years 1000000 15 = Finite (2962487558233129 / 1073741824)"
    by blast+
  from t have "predict_price (\<lambda>x. Inr 1000000) ?cols 1000 2 3 (str ''loc_b'') =
        Inr (1000000, Finite 1000) \<longrightarrow>
        take 4 (fst (predict_button numpy_mt (\<lambda>x. Inr 1000000) ?cols 1000 2 3 (str ''loc_b'')
          (MT (mt_init 0) 624))) =
          [PriceCard 1000000 (Finite 1000),
           RoiCard 5 (roi_years 1000000 5) (percent_gain (roi_years 1000000 5) 1000000),
           RoiCard 10 (roi_years 1000000 10) (percent_gain (roi_years 1000000 10) 1000000),
           RoiCard 15 (roi_years 1000000 15) (percent_gain (roi_years 1000000 15) 1000000)]"
    by blast
  with p have cards: "take 4 (fst (predict_button numpy_mt (\<lambda>x. Inr 1000000) ?cols 1000 2 3
          (str ''loc_b'') (MT (mt_init 0) 624))) =
          [PriceCard 1000000 (Finite 1000),
           RoiCard 5 (Finite (3011956905649111 / 2147483648))
             (Finite (1416352985332303 / 35184372088832)),
           RoiCard 10 (Finite (8448850757481923 / 4294967296))
             (Finite (6805722663291983 / 70368744177664)),
           RoiCard 15 (Finite (2962487558233129 / 1073741824))
             (Finite (6189042021935117 / 35184372088832))]"
    by (simp only: v5 v10 v15 gain_million_5 gain_million_10 gain_million_15 simp_thms)
  have b: "\<bar>1000000 :: real\<bar> \<le> 10 ^ 15" by simp
  from t have "\<bar>1000000 :: real\<bar> \<le> 10 ^ 15 \<and> ((5::nat) = 5 \<or> (5::nat) = 10 \<or> (5::nat) = 15) \<longrightarrow>
        (\<exists>r. roi_years 1000000 5 = Finite r
           \<and> \<bar>r - 1000000 * 1.07 ^ 5\<bar> \<le> 1 / 200 + (\<bar>1000000\<bar> + 1) / 10 ^ 14)"
    by blast
  with b have "\<exists>r. roi_years 1000000 5 = Finite r
           \<and> \<bar>r - 1000000 * 1.07 ^ 5\<bar> \<le> 1 / 200 + (\<bar>1000000\<bar> + 1) / 10 ^ 14" by simp
  then have c: "\<bar>3011956905649111 / 2147483648 - 1000000 * 1.07 ^ 5\<bar>
         \<le> (1 / 200 + (\<bar>1000000\<bar> + 1) / 10 ^ 14 :: real)"
    by (simp only: v5 np_float64.inject) blast
  from p cards b c show ?thesis by blast
qed

text \<open>
  C3 as stated fails for the price 1,844,456 and the horizon 5: the exact product is
  2586944.9549999992, which rounds to 2586944.95, and the program shows the binary64
  number nearest to 2586944.96.
\<close>

theorem roi_rounding_counterexample:
  "roi_years 1844456 5 = Finite (2777710999938007 / 1073741824)
   \<and> \<bar>2777710999938007 / 1073741824 - 2586944.96\<bar> \<le> (1 / 10 ^ 9 :: real)
   \<and> py_round (1844456 * (1 + 0.07) ^ 5) 2 = 2586944.95
   \<and> roi_years 1844456 5 \<noteq> Finite (py_round (1844456 * (1 + 0.07) ^ 5) 2)"
proof -
  have "of_int 258694495 - 1 / 2 < (1844456::real) * (1 + 0.07) ^ 5 * 100"
    and "(1844456::real) * (1 + 0.07) ^ 5 * 100 < of_int 258694495 + 1 / 2"
    by (simp_all add: power_divide)
  from py_round2_eqI [OF this]
  have r: "py_round (1844456 * (1 + 0.07) ^ 5) 2 = 2586944.95" by simp
  have n: "\<bar>2777710999938007 / 1073741824 - 2586944.96\<bar> \<le> (1 / 10 ^ 9 :: real)" by simp
  have "(2777710999938007 / 1073741824 :: real) \<noteq> 2586944.95" by simp
  with r have "roi_years 1844456 5 \<noteq> Finite (py_round (1844456 * (1 + 0.07) ^ 5) 2)"
    by (simp only: roi_1844456_5 np_float64.inject) simp
  with roi_1844456_5 n r show ?thesis by blast
qed

text \<open>
  C4, as the program has it. The generator is seeded with the sum of the code points of
  the location; when the seeding does not raise, the script draws, in this order, an
  integer from 50 to 199, an integer from 30 to 89 and a number of the interval from 5
  to 30 without 30, which it rounds to two decimals. The rounded number lies between 5
  and 30, and 30 itself is possible.
\<close>

theorem environmental_profile:
  assumes "numpy_ranges R"
  shows "(\<forall>e. np_seed R (sum_list (map ord location)) = Inl e \<longrightarrow>
            environmental R location g = (Inl e, g))
       \<and> (\<forall>g0. np_seed R (sum_list (map ord location)) = Inr g0 \<longrightarrow>
            (\<exists>aqi g1 noise g2 u g3.
                np_randint R 50 200 g0 = (aqi, g1)
              \<and> np_randint R 30 90 g1 = (noise, g2)
              \<and> np_uniform R 5 30 g2 = (u, g3)
              \<and> environmental R location g = (Inr (aqi, noise, py_round u 2), g3)
              \<and> 50 \<le> aqi \<and> aqi < 200 \<and> 30 \<le> noise \<and> noise < 90
              \<and> 5 \<le> u \<and> u < 30 \<and> 5 \<le> py_round u 2 \<and> py_round u 2 \<le> 30))"
proof (intro conjI allI impI)
  fix e
  assume "np_seed R (sum_list (map ord location)) = Inl e"
  then show "environmental R location g = (Inl e, g)" by (rule environmental_seed_error)
next
  fix g0
  assume seeded: "np_seed R (sum_list (map ord location)) = Inr g0"
  obtain aqi g1 where a: "np_randint R 50 200 g0 = (aqi, g1)" by (cases "np_randint R 50 200 g0")
  obtain noise g2 where n: "np_randint R 30 90 g1 = (noise, g2)" by (cases "np_randint R 30 90 g1")
  obtain u g3 where u: "np_uniform R 5 30 g2 = (u, g3)" by (cases "np_uniform R 5 30 g2")
  from assms have ri: "\<And>lo hi g. lo < hi \<Longrightarrow>
      lo \<le> fst (np_randint R lo hi g) \<and> fst (np_randint R lo hi g) < hi"
    and ru: "\<And>lo hi g. lo < hi \<Longrightarrow>
      lo \<le> fst (np_uniform R lo hi g) \<and> fst (np_uniform R lo hi g) < hi"
    by (simp_all add: numpy_ranges_def)
  from ri [of 50 200 g0] a have ra: "50 \<le> aqi" "aqi < 200" by simp_all
  from ri [of 30 90 g1] n have rn: "30 \<le> noise" "noise < 90" by simp_all
  from ru [of 5 30 g2] u have rg: "5 \<le> u" "u < 30" by simp_all
  from rg have "of_int 5 \<le> u" "u \<le> of_int 30" by simp_all
  from py_round2_ge [OF this(1)] py_round2_le [OF this(2)]
  have rr: "5 \<le> py_round u 2" "py_round u 2 \<le> 30" by simp_all
  have "environmental R location g = (Inr (aqi, noise, py_round u 2), g3)"
    by (simp add: environmental_seeded [OF seeded] draws_unfold [OF a n u])
  with a n u ra rn rg rr
  show "\<exists>aqi g1 noise g2 u g3.
                np_randint R 50 200 g0 = (aqi, g1)
              \<and> np_randint R 30 90 g1 = (noise, g2)
              \<and> np_uniform R 5 30 g2 = (u, g3)
              \<and> environmental R location g = (Inr (aqi, noise, py_round u 2), g3)
              \<and> 50 \<le> aqi \<and> aqi < 200 \<and> 30 \<le> noise \<and> noise < 90
              \<and> 5 \<le> u \<and> u < 30 \<and> 5 \<le> py_round u 2 \<and> py_round u 2 \<le> 30"
    by blast
qed

theorem environmental_profile_witness:
  "numpy_ranges numpy_mt
   \<and> np_seed numpy_mt (sum_list (map ord (str ''civil lines''))) = Inr (MT (mt_init 1106) 624)
   \<and> fst (environmental numpy_mt (str ''civil lines'') (MT (mt_init 0) 624)) =
        Inr (111, 84, 18.88)
   \<and> (\<exists>aqi noise green g3.
        environmental numpy_mt (str ''civil lines'') (MT (mt_init 0) 624) =
          (Inr (aqi, noise, green), g3)
        \<and> 50 \<le> aqi \<and> aqi < 200 \<and> 30 \<le> noise \<and> noise < 90 \<and> 5 \<le> green \<and> green \<le> 30)"
proof -
  have s: "np_seed numpy_mt (sum_list (map ord (str ''civil lines''))) =
             Inr (MT (mt_init 1106) 624)"
    by (simp add: seed_civil_lines numpy_mt_def mt_seed_def)
  from environmental_profile [OF numpy_mt_ranges, of "str ''civil lines''" "MT (mt_init 0) 624"] s
  have "\<exists>aqi noise green g3.
        environmental numpy_mt (str ''civil lines'') (MT (mt_init 0) 624) =
          (Inr (aqi, noise, green), g3)
        \<and> 50 \<le> aqi \<and> aqi < 200 \<and> 30 \<le> noise \<and> noise < 90 \<and> 5 \<le> green \<and> green \<le> 30"
    by blast
  with numpy_mt_ranges s environmental_civil_lines show ?thesis by blast
qed

text \<open>
  C4 as stated fails for the rounded number: with numpy's generator the location of the
  one character U+7411 has the seed 29713, the draws are 91, 77 and a number above
  29.995, and the profile holds 30.00, which is outside the interval without 30.
\<close>

theorem environmental_green_30_counterexample:
  "fst (environmental numpy_mt [29713] (MT (mt_init 0) 624)) = Inr (91, 77, 30)
   \<and> \<not> ((30::real) < 30)"
proof -
  have "sum_list (map ord [29713]) = 29713" by (simp add: ord_def)
  from environmental_numpy_mt [OF this] mt_draws_29713 show ?thesis by simp
qed

text \<open>
  C5. The handler seeds the global generator before it draws, so nothing it shows depends
  on the state the generator was in: two runs with the same model, columns and inputs show
  the same price, projections and profile, whatever the first run left behind, and the
  profile of "civil lines" is the same in every run.
\<close>

theorem two_runs_identical:
  "fst (predict_button R model columns area bathrooms bedrooms location g) =
     fst (predict_button R model columns area bathrooms bedrooms location g')
   \<and> fst (predict_button R model columns area bathrooms bedrooms location
          (snd (predict_button R model columns area bathrooms bedrooms location g))) =
     fst (predict_button R model columns area bathrooms bedrooms location g)
   \<and> fst (environmental R location g) = fst (environmental R location g')
   \<and> fst (environmental R location (snd (environmental R location g))) =
     fst (environmental R location g)
   \<and> fst (environmental numpy_mt (str ''civil lines'') g1) =
     fst (environmental numpy_mt (str ''civil lines'') g2)
   \<and> fst (environmental numpy_mt (str ''civil lines'') g1) = Inr (111, 84, 18.88)"
  using predict_button_state_free [of R model columns area bathrooms bedrooms location]
    environmental_state_free [of R location] environmental_civil_lines
  by simp

text \<open>
  C10. The profile depends on the location only through the sum of its code points: two
  locations with equal sums, such as two that are permutations of each other, give the
  same result from the same generator.
\<close>

theorem profile_depends_on_sum:
  "(sum_list (map ord l1) = sum_list (map ord l2) \<longrightarrow>
      environmental R l1 g = environmental R l2 g)
   \<and> (mset l1 = mset l2 \<longrightarrow> environmental R l1 g = environmental R l2 g)"
proof (intro conjI impI)
  assume "sum_list (map ord l1) = sum_list (map ord l2)"
  then show "environmental R l1 g = environmental R l2 g"
    by (simp add: environmental_def)
next
  assume "mset l1 = mset l2"
  then have "mset (map ord l1) = mset (map ord l2)" by simp
  then have "sum_mset (mset (map ord l1)) = sum_mset (mset (map ord l2))" by simp
  then have "sum_list (map ord l1) = sum_list (map ord l2)" by (simp only: sum_mset_sum_list)
  then show "environmental R l1 g = environmental R l2 g"
    by (simp add: environmental_def)
qed

theorem profile_depends_on_sum_witness:
  "sum_list (map ord (str ''civil lines'')) = sum_list (map ord (str ''lines civil''))
   \<and> mset (str ''civil lines'') = mset (str ''lines civil'')
   \<and> environmental numpy_mt (str ''lines civil'') (MT (mt_init 0) 624) =
       environmental numpy_mt (str ''civil lines'') (MT (mt_init 0) 624)
   \<and> fst (environmental numpy_mt (str ''lines civil'') (MT (mt_init 0) 624)) =
       Inr (111, 84, 18.88)"
proof -
  have a: "sum_list (map ord (str ''civil lines'')) = sum_list (map ord (str ''lines civil''))"
    by (simp add: str_def ord_def)
  have b: "mset (str ''civil lines'') = mset (str ''lines civil'')"
    by (simp add: str_def)
  from profile_depends_on_sum [of "str ''lines civil''" "str ''civil lines''" numpy_mt
      "MT (mt_init 0) 624"] a
  have c: "environmental numpy_mt (str ''lines civil'') (MT (mt_init 0) 624) =
       environmental numpy_mt (str ''civil lines'') (MT (mt_init 0) 624)" by simp
  from a b c environmental_civil_lines [of "MT (mt_init 0) 624"] show ?thesis by simp
qed

end
